theory Spec2Isabelle
  imports Complex_Main "HOL-Library.AList"
begin

section \<open>Shared modelling conventions\<close>

text \<open>
  The two counters of the repository (\<^verbatim>\<open>backend/penghitung_passing.py\<close> and
  \<^verbatim>\<open>backend/penghitung_ritase.py\<close>) are Python classes whose methods mutate
  the instance. Each class is a record of its attributes and each method a function from the
  state before the call to the state after it (paired with the return value where the
  method returns one).

  \<^item> A Python \<^verbatim>\<open>dict\<close> is an association list in insertion order:
    \<^verbatim>\<open>d[k] = v\<close> is \<open>AList.update k v d\<close> (an existing key keeps its place, a new
    key goes last), \<^verbatim>\<open>k in d\<close> is \<open>has_key d k\<close>, and a mutation of the
    nested entry \<^verbatim>\<open>d[k]["f"] = v\<close> is \<open>AList.map_entry k\<close>.
  \<^item> Python integers are \<open>int\<close>.
  \<^item> A confidence is a Python float that is only ever stored and compared, never
    computed with; it is modelled by the real number it denotes (finite, not NaN), on
    which the comparisons of the source agree with those of \<open>real\<close>.
  \<^item> Logging calls have no effect on the state and are left out.
\<close>

type_synonym ('k, 'v) dict = "('k \<times> 'v) list"

definition has_key :: "('k, 'v) dict \<Rightarrow> 'k \<Rightarrow> bool" where
  "has_key d k = (map_of d k \<noteq> None)"

text \<open>\<^verbatim>\<open>d[k].append(x)\<close> on a \<^verbatim>\<open>defaultdict(list)\<close>: a missing key is
  created with the empty list first.\<close>

definition defaultdict_append :: "('k, 'v list) dict \<Rightarrow> 'k \<Rightarrow> 'v \<Rightarrow> ('k, 'v list) dict" where
  "defaultdict_append d k x =
     AList.update k ((case map_of d k of None \<Rightarrow> [] | Some l \<Rightarrow> l) @ [x]) d"

text \<open>Python's \<^verbatim>\<open>str\<close> of an integer, and the detection identity
  \<^verbatim>\<open>f"{tracker_id}_{frame_index}"\<close>.\<close>

fun digits_of :: "nat \<Rightarrow> string" where
  "digits_of n = (if n < 10 then [''0123456789'' ! n]
                  else digits_of (n div 10) @ [''0123456789'' ! (n mod 10)])"

declare digits_of.simps [simp del]

definition str_int :: "int \<Rightarrow> string" where
  "str_int i = (if i < 0 then CHR ''-'' # digits_of (nat (- i)) else digits_of (nat i))"

definition detection_id :: "int \<Rightarrow> int \<Rightarrow> string" where
  "detection_id tracker_id frame_index = str_int tracker_id @ ''_'' @ str_int frame_index"

definition CLASS_BUCKET_DUMPING :: int where
  "CLASS_BUCKET_DUMPING = 2"

definition CLASS_TRUCK_FULL :: int where
  "CLASS_TRUCK_FULL = 6"

section \<open>PenghitungPassing\<close>

record DumpDeteksi =
  dd_dump_id :: string
  dd_frame_index :: int
  dd_confidence :: real

record BestDump =
  bd_dump_id :: string
  bd_frame_index :: int
  bd_confidence :: real

record ExcavatorData =
  passing_count :: int
  best_dump :: "BestDump option"

record PenghitungPassing =
  excavators :: "(int, ExcavatorData) dict"
  counted_dumps :: "string set"
  min_confidence :: real
  total_passing :: int
  active_cycle :: "(int, DumpDeteksi list) dict"

text \<open>\<^verbatim>\<open>PenghitungPassing.__init__\<close>\<close>

definition PenghitungPassing_init :: "real \<Rightarrow> PenghitungPassing" where
  "PenghitungPassing_init mc =
     \<lparr>excavators = [], counted_dumps = {}, min_confidence = mc, total_passing = 0,
      active_cycle = []\<rparr>"

text \<open>\<^verbatim>\<open>PenghitungPassing._inisialisasi_excavator\<close>\<close>

definition inisialisasi_excavator :: "PenghitungPassing \<Rightarrow> int \<Rightarrow> PenghitungPassing" where
  "inisialisasi_excavator s tracker_id =
     s\<lparr>excavators :=
         AList.update tracker_id \<lparr>passing_count = 0, best_dump = None\<rparr> (excavators s)\<rparr>"

text \<open>The first three lines of \<^verbatim>\<open>PenghitungPassing.proses_deteksi\<close>: create the entry of
  an unseen tracker, then bind \<^verbatim>\<open>excavator = self.excavators[tracker_id]\<close>.\<close>

definition ambil_excavator :: "PenghitungPassing \<Rightarrow> int \<Rightarrow> PenghitungPassing \<times> ExcavatorData" where
  "ambil_excavator s tracker_id =
     (case map_of (excavators s) tracker_id of
        None \<Rightarrow> (inisialisasi_excavator s tracker_id, \<lparr>passing_count = 0, best_dump = None\<rparr>)
      | Some e \<Rightarrow> (s, e))"

text \<open>\<^verbatim>\<open>PenghitungPassing.proses_deteksi\<close>: the return value and the state after the
  call. \<^verbatim>\<open>excavator\<close> aliases the entry of \<^verbatim>\<open>tracker_id\<close> in
  \<^verbatim>\<open>self.excavators\<close>, so its two assignments are updates of that entry.\<close>

definition passing_proses_deteksi ::
  "PenghitungPassing \<Rightarrow> int \<Rightarrow> int \<Rightarrow> int \<Rightarrow> real \<Rightarrow> bool \<times> PenghitungPassing" where
  "passing_proses_deteksi s tracker_id class_id frame_index confidence =
     (let (s1, excavator) = ambil_excavator s tracker_id in
      if class_id = CLASS_BUCKET_DUMPING then
        (let dump_id = detection_id tracker_id frame_index in
         if dump_id \<in> counted_dumps s1 \<or> confidence < min_confidence s1 then (False, s1)
         else
           (let s2 = s1\<lparr>active_cycle :=
                        defaultdict_append (active_cycle s1) tracker_id
                          \<lparr>dd_dump_id = dump_id, dd_frame_index = frame_index,
                           dd_confidence = confidence\<rparr>\<rparr>;
                old_best = best_dump excavator;
                new_best = \<lparr>bd_dump_id = dump_id, bd_frame_index = frame_index,
                            bd_confidence = confidence\<rparr>;
                (is_new_passing, s3) =
                  (if (case old_best of None \<Rightarrow> True | Some b \<Rightarrow> confidence > bd_confidence b)
                   then
                     (if old_best = None
                      then (True,
                            s2\<lparr>excavators :=
                                 AList.map_entry tracker_id
                                   (\<lambda>e. e\<lparr>best_dump := Some new_best,
                                           passing_count := passing_count e + 1\<rparr>)
                                   (excavators s2),
                               total_passing := total_passing s2 + 1\<rparr>)
                      else (False,
                            s2\<lparr>excavators :=
                                 AList.map_entry tracker_id
                                   (\<lambda>e. e\<lparr>best_dump := Some new_best\<rparr>) (excavators s2)\<rparr>))
                   else (False, s2))
            in (is_new_passing, s3\<lparr>counted_dumps := insert dump_id (counted_dumps s3)\<rparr>)))
      else (False, s1))"

text \<open>\<^verbatim>\<open>PenghitungPassing.selesaikan_siklus\<close>\<close>

definition passing_selesaikan_siklus :: "PenghitungPassing \<Rightarrow> int \<Rightarrow> PenghitungPassing" where
  "passing_selesaikan_siklus s tracker_id =
     (if has_key (active_cycle s) tracker_id then
        (let s1 = s\<lparr>active_cycle := AList.update tracker_id [] (active_cycle s)\<rparr> in
         if has_key (excavators s1) tracker_id
         then s1\<lparr>excavators :=
                   AList.map_entry tracker_id (\<lambda>e. e\<lparr>best_dump := None\<rparr>) (excavators s1)\<rparr>
         else s1)
      else s)"

text \<open>\<^verbatim>\<open>PenghitungPassing.dapatkan_statistik\<close>: the total and, per tracker, the count and
  the best dump. A read-only projection.\<close>

definition passing_dapatkan_statistik ::
  "PenghitungPassing \<Rightarrow> int \<times> (int, int \<times> BestDump option) dict" where
  "passing_dapatkan_statistik s =
     (total_passing s, map (\<lambda>(tracker, data). (tracker, (passing_count data, best_dump data)))
                          (excavators s))"

text \<open>\<^verbatim>\<open>PenghitungPassing.dapatkan_passing_count\<close>\<close>

definition dapatkan_passing_count :: "PenghitungPassing \<Rightarrow> int option \<Rightarrow> int" where
  "dapatkan_passing_count s tracker_id =
     (case tracker_id of
        None \<Rightarrow> total_passing s
      | Some t \<Rightarrow> (case map_of (excavators s) t of None \<Rightarrow> 0 | Some e \<Rightarrow> passing_count e))"

text \<open>\<^verbatim>\<open>PenghitungPassing.reset_all_counters\<close>: the loop visits every entry of
  \<^verbatim>\<open>self.excavators\<close> once and overwrites its two fields.\<close>

definition reset_all_counters :: "PenghitungPassing \<Rightarrow> PenghitungPassing" where
  "reset_all_counters s =
     s\<lparr>excavators :=
         map (\<lambda>(tracker_id, e). (tracker_id, e\<lparr>passing_count := 0, best_dump := None\<rparr>))
           (excavators s),
       total_passing := 0,
       active_cycle := [],
       counted_dumps := {}\<rparr>"

section \<open>PenghitungRitase\<close>

record FullDeteksi =
  fd_full_truck_id :: string
  fd_frame_index :: int
  fd_confidence :: real

text \<open>The value of \<^verbatim>\<open>data_truk[...]["best_full"]\<close>.\<close>

record BestFull =
  bf_full_truck_id :: string
  bf_frame_index :: int
  bf_confidence :: real
  bf_cycle_number :: int

text \<open>The value of \<^verbatim>\<open>self.ritase_terbaik_di_siklus\<close>: the source annotates it as
  \<^verbatim>\<open>BestFull\<close> but stores the owner under the key \<^verbatim>\<open>"tracker_id"\<close>.\<close>

record RitaseTerbaik =
  rt_tracker_id :: int
  rt_frame_index :: int
  rt_confidence :: real
  rt_cycle_number :: int

record TruckData =
  ritase_count :: int
  best_full :: "BestFull option"
  last_cycle_frame :: int
  last_cycle_number :: int

record KandidatInfo =
  ki_tracker_id :: int
  ki_frame_index :: int
  ki_confidence :: real
  ki_status :: string

record PenghitungRitase =
  data_truk :: "(int, TruckData) dict"
  truk_full_terhitung :: "string set"
  ambang_kepercayaan :: real
  total_ritase :: int
  siklus_aktif :: "(int, FullDeteksi list) dict"
  total_siklus_selesai :: int
  total_deteksi_truk_penuh :: int
  siklus_berjalan_punya_ritase :: bool
  ritase_terbaik_di_siklus :: "RitaseTerbaik option"
  nomor_siklus :: int
  total_pencegahan_ganda :: int
  kandidat_siklus :: "KandidatInfo list"

text \<open>\<^verbatim>\<open>PenghitungRitase.__init__\<close>\<close>

definition PenghitungRitase_init :: "real \<Rightarrow> PenghitungRitase" where
  "PenghitungRitase_init mc =
     \<lparr>data_truk = [], truk_full_terhitung = {}, ambang_kepercayaan = mc, total_ritase = 0,
      siklus_aktif = [], total_siklus_selesai = 0, total_deteksi_truk_penuh = 0,
      siklus_berjalan_punya_ritase = False, ritase_terbaik_di_siklus = None,
      nomor_siklus = 0, total_pencegahan_ganda = 0, kandidat_siklus = []\<rparr>"

text \<open>\<^verbatim>\<open>PenghitungRitase._inisialisasi_truck\<close>\<close>

definition inisialisasi_truck :: "PenghitungRitase \<Rightarrow> int \<Rightarrow> PenghitungRitase" where
  "inisialisasi_truck s tracker_id =
     s\<lparr>data_truk :=
         AList.update tracker_id
           \<lparr>ritase_count = 0, best_full = None, last_cycle_frame = 0, last_cycle_number = - 1\<rparr>
           (data_truk s)\<rparr>"

text \<open>\<^verbatim>\<open>PenghitungRitase.selesaikan_siklus\<close>\<close>

definition ritase_selesaikan_siklus :: "PenghitungRitase \<Rightarrow> int \<Rightarrow> PenghitungRitase" where
  "ritase_selesaikan_siklus s tracker_id =
     (if has_key (siklus_aktif s) tracker_id then
        (let s1 = s\<lparr>siklus_aktif := AList.update tracker_id [] (siklus_aktif s)\<rparr> in
         if has_key (data_truk s1) tracker_id
         then s1\<lparr>data_truk :=
                   AList.map_entry tracker_id
                     (\<lambda>d. d\<lparr>best_full := None, last_cycle_frame := 0,
                             last_cycle_number := nomor_siklus s1\<rparr>)
                     (data_truk s1)\<rparr>
         else s1)
      else s)"

text \<open>\<^verbatim>\<open>PenghitungRitase._selesaikan_siklus_global\<close>. The list comprehension is
  evaluated before the loop; the loop calls \<^verbatim>\<open>selesaikan_siklus\<close> on each of its
  elements in order.\<close>

definition truk_dengan_siklus_aktif :: "PenghitungRitase \<Rightarrow> int list" where
  "truk_dengan_siklus_aktif s = map fst (filter (\<lambda>(tid, dets). length dets > 0) (siklus_aktif s))"

definition selesaikan_siklus_global :: "PenghitungRitase \<Rightarrow> PenghitungRitase" where
  "selesaikan_siklus_global s =
     (let aktif = truk_dengan_siklus_aktif s;
          s1 = fold (\<lambda>id_truk st. ritase_selesaikan_siklus st id_truk) aktif s
      in if aktif \<noteq> [] \<or> siklus_berjalan_punya_ritase s1 then
           s1\<lparr>total_siklus_selesai := total_siklus_selesai s1 + 1,
              siklus_berjalan_punya_ritase := False,
              ritase_terbaik_di_siklus := None,
              kandidat_siklus := [],
              nomor_siklus := nomor_siklus s1 + 1\<rparr>
         else s1)"

text \<open>The branch of \<^verbatim>\<open>PenghitungRitase.proses_deteksi\<close> taken when the running global
  cycle already has a ritase (source lines 130 to 186). \<^verbatim>\<open>data_truk\<close> aliases the
  entry of \<^verbatim>\<open>tracker_id\<close>, so its count is read after the correction of the old
  owner's count, which is the same entry when the owner does not change.\<close>

definition perbarui_kandidat ::
  "PenghitungRitase \<Rightarrow> int \<Rightarrow> int \<Rightarrow> real \<Rightarrow> bool \<times> PenghitungRitase" where
  "perbarui_kandidat s tracker_id frame_index confidence =
     (let kandidat_lebih_baik =
            (case ritase_terbaik_di_siklus s of
               None \<Rightarrow> True
             | Some terbaik \<Rightarrow> confidence > rt_confidence terbaik);
          s3 =
            (if kandidat_lebih_baik then
               (let kandidat_lama = ritase_terbaik_di_siklus s;
                    s1 = s\<lparr>ritase_terbaik_di_siklus :=
                             Some \<lparr>rt_tracker_id = tracker_id, rt_frame_index = frame_index,
                                   rt_confidence = confidence,
                                   rt_cycle_number = nomor_siklus s\<rparr>\<rparr>;
                    s2 =
                      (case kandidat_lama of
                         None \<Rightarrow> s1
                       | Some lama \<Rightarrow>
                           (let id_truk_lama = rt_tracker_id lama in
                            if has_key (data_truk s1) id_truk_lama
                            then s1\<lparr>data_truk :=
                                      AList.map_entry id_truk_lama
                                        (\<lambda>d. d\<lparr>ritase_count := max 0 (ritase_count d - 1)\<rparr>)
                                        (data_truk s1)\<rparr>
                            else s1))
                in s2\<lparr>data_truk :=
                        AList.map_entry tracker_id
                          (\<lambda>d. d\<lparr>ritase_count := ritase_count d + 1,
                                  best_full :=
                                    Some \<lparr>bf_full_truck_id = detection_id tracker_id frame_index,
                                          bf_frame_index = frame_index,
                                          bf_confidence = confidence,
                                          bf_cycle_number = nomor_siklus s2\<rparr>\<rparr>)
                          (data_truk s2)\<rparr>)
             else s);
          s4 = s3\<lparr>kandidat_siklus :=
                    kandidat_siklus s3 @
                      [\<lparr>ki_tracker_id = tracker_id, ki_frame_index = frame_index,
                        ki_confidence = confidence,
                        ki_status = (if kandidat_lebih_baik then ''better_candidate''
                                     else ''rejected'')\<rparr>]\<rparr>
      in (False, s4\<lparr>total_pencegahan_ganda := total_pencegahan_ganda s4 + 1\<rparr>))"

text \<open>The branch taken when the running cycle has no ritase yet (source lines 188 to 234,
  and the final \<^verbatim>\<open>return False\<close> when the detection is not accepted).\<close>

definition ritase_pertama ::
  "PenghitungRitase \<Rightarrow> int \<Rightarrow> int \<Rightarrow> real \<Rightarrow> bool \<times> PenghitungRitase" where
  "ritase_pertama s tracker_id frame_index confidence =
     (let id_truk_full = detection_id tracker_id frame_index in
      if id_truk_full \<notin> truk_full_terhitung s \<and> confidence \<ge> ambang_kepercayaan s then
        (let s1 = s\<lparr>siklus_aktif :=
                     defaultdict_append (siklus_aktif s) tracker_id
                       \<lparr>fd_full_truck_id = id_truk_full, fd_frame_index = frame_index,
                        fd_confidence = confidence\<rparr>\<rparr>;
             s2 = s1\<lparr>siklus_berjalan_punya_ritase := True,
                     ritase_terbaik_di_siklus :=
                       Some \<lparr>rt_tracker_id = tracker_id, rt_frame_index = frame_index,
                             rt_confidence = confidence, rt_cycle_number = nomor_siklus s1\<rparr>\<rparr>;
             s3 = s2\<lparr>data_truk :=
                       AList.map_entry tracker_id
                         (\<lambda>d. d\<lparr>ritase_count := ritase_count d + 1,
                                 best_full :=
                                   Some \<lparr>bf_full_truck_id = id_truk_full,
                                         bf_frame_index = frame_index,
                                         bf_confidence = confidence,
                                         bf_cycle_number = nomor_siklus s2\<rparr>\<rparr>)
                         (data_truk s2)\<rparr>;
             s4 = s3\<lparr>total_ritase := total_ritase s3 + 1\<rparr>;
             s5 = s4\<lparr>kandidat_siklus :=
                       kandidat_siklus s4 @
                         [\<lparr>ki_tracker_id = tracker_id, ki_frame_index = frame_index,
                           ki_confidence = confidence, ki_status = ''accepted_as_primary''\<rparr>]\<rparr>
         in (True, s5\<lparr>truk_full_terhitung := insert id_truk_full (truk_full_terhitung s5)\<rparr>))
      else (False, s))"

text \<open>\<^verbatim>\<open>PenghitungRitase.proses_deteksi\<close>: the return value and the state after the
  call.\<close>

definition ritase_proses_deteksi ::
  "PenghitungRitase \<Rightarrow> int \<Rightarrow> int \<Rightarrow> int \<Rightarrow> real \<Rightarrow> bool \<times> PenghitungRitase" where
  "ritase_proses_deteksi s tracker_id class_id frame_index confidence =
     (let s1 = (if has_key (data_truk s) tracker_id then s else inisialisasi_truck s tracker_id) in
      if class_id = CLASS_TRUCK_FULL then
        (let s2 = s1\<lparr>total_deteksi_truk_penuh := total_deteksi_truk_penuh s1 + 1\<rparr> in
         if siklus_berjalan_punya_ritase s2
         then perbarui_kandidat s2 tracker_id frame_index confidence
         else ritase_pertama s2 tracker_id frame_index confidence)
      else if class_id = CLASS_BUCKET_DUMPING then (False, selesaikan_siklus_global s1)
      else (False, s1))"

text \<open>\<^verbatim>\<open>PenghitungRitase.selesaikan_siklus_manual\<close>\<close>

definition selesaikan_siklus_manual :: "PenghitungRitase \<Rightarrow> int \<Rightarrow> int \<Rightarrow> PenghitungRitase" where
  "selesaikan_siklus_manual s tracker_id frame_index =
     (if has_key (data_truk s) tracker_id then
        ritase_selesaikan_siklus
          (s\<lparr>data_truk :=
               AList.map_entry tracker_id
                 (\<lambda>d. d\<lparr>last_cycle_frame := frame_index, last_cycle_number := nomor_siklus s\<rparr>)
                 (data_truk s)\<rparr>)
          tracker_id
      else s)"

text \<open>\<^verbatim>\<open>PenghitungRitase.dapatkan_ritase_count\<close>\<close>

definition dapatkan_ritase_count :: "PenghitungRitase \<Rightarrow> int option \<Rightarrow> int" where
  "dapatkan_ritase_count s tracker_id =
     (case tracker_id of
        None \<Rightarrow> total_ritase s
      | Some t \<Rightarrow> (case map_of (data_truk s) t of None \<Rightarrow> 0 | Some d \<Rightarrow> ritase_count d))"

text \<open>\<^verbatim>\<open>PenghitungRitase.reset_statistik\<close>: every attribute but the threshold goes
  back to its value at construction.\<close>

definition reset_statistik :: "PenghitungRitase \<Rightarrow> PenghitungRitase" where
  "reset_statistik s = PenghitungRitase_init (ambang_kepercayaan s)"

text \<open>\<^verbatim>\<open>PenghitungRitase.reset_counters\<close>\<close>

definition reset_counters :: "PenghitungRitase \<Rightarrow> PenghitungRitase" where
  "reset_counters s =
     s\<lparr>total_ritase := 0,
       data_truk :=
         map (\<lambda>(tracker_id, d). (tracker_id, d\<lparr>ritase_count := 0, best_full := None\<rparr>))
           (data_truk s)\<rparr>"

section \<open>Observations and runs used to state the properties\<close>

text \<open>The best candidate of a tracker as the next call of \<^verbatim>\<open>proses_deteksi\<close> reads it:
  \<^verbatim>\<open>None\<close> also for a tracker without an entry, whose entry is created with \<^verbatim>\<open>None\<close>.\<close>

definition kandidat_terbaik :: "PenghitungPassing \<Rightarrow> int \<Rightarrow> BestDump option" where
  "kandidat_terbaik s tracker_id =
     (case map_of (excavators s) tracker_id of None \<Rightarrow> None | Some e \<Rightarrow> best_dump e)"

text \<open>The sum of \<^verbatim>\<open>passing_count\<close> over all entries of \<^verbatim>\<open>excavators\<close>.\<close>

definition jumlah_passing :: "PenghitungPassing \<Rightarrow> int" where
  "jumlah_passing s = (\<Sum>p\<leftarrow>excavators s. passing_count (snd p))"

text \<open>The states a \<^verbatim>\<open>PenghitungPassing\<close> can be in: constructed, then changed by its
  three mutating methods in any order and with any arguments.\<close>

inductive passing_reachable :: "PenghitungPassing \<Rightarrow> bool" where
  reach_init: "passing_reachable (PenghitungPassing_init mc)"
| reach_proses: "passing_reachable s \<Longrightarrow>
     passing_reachable (snd (passing_proses_deteksi s tracker_id class_id frame_index confidence))"
| reach_selesaikan: "passing_reachable s \<Longrightarrow> passing_reachable (passing_selesaikan_siklus s tracker_id)"
| reach_reset: "passing_reachable s \<Longrightarrow> passing_reachable (reset_all_counters s)"

text \<open>A dump detection (frame index, confidence) passes the guard of source line 102 in
  state \<open>s\<close>: its identity is fresh and its confidence reaches the threshold.\<close>

definition qualifies :: "PenghitungPassing \<Rightarrow> int \<Rightarrow> int \<times> real \<Rightarrow> bool" where
  "qualifies s tracker_id d =
     (detection_id tracker_id (fst d) \<notin> counted_dumps s \<and> min_confidence s \<le> snd d)"

text \<open>Keeps the first \<open>True\<close> of a list and clears the later ones.\<close>

fun first_only :: "bool list \<Rightarrow> bool list" where
  "first_only [] = []"
| "first_only (b # bs) = (if b then True # map (\<lambda>_. False) bs else False # first_only bs)"

text \<open>A caller feeding a sequence of \<^verbatim>\<open>bucket_dumping\<close> detections (frame index,
  confidence) of one tracker, with no other call in between; the return values in order and
  the final state.\<close>

fun feed_dumps :: "PenghitungPassing \<Rightarrow> int \<Rightarrow> (int \<times> real) list \<Rightarrow> bool list \<times> PenghitungPassing" where
  "feed_dumps s tracker_id [] = ([], s)"
| "feed_dumps s tracker_id (d # ds) =
     (let (r, s1) = passing_proses_deteksi s tracker_id CLASS_BUCKET_DUMPING (fst d) (snd d);
          (rs, s2) = feed_dumps s1 tracker_id ds
      in (r # rs, s2))"

text \<open>The state after the first two lines of \<^verbatim>\<open>PenghitungRitase.proses_deteksi\<close>, which create
  the entry of an unseen tracker.\<close>

definition ambil_truck :: "PenghitungRitase \<Rightarrow> int \<Rightarrow> PenghitungRitase" where
  "ambil_truck s tracker_id =
     (if has_key (data_truk s) tracker_id then s else inisialisasi_truck s tracker_id)"

text \<open>A caller feeding a sequence of detections (tracker id, class id, frame index,
  confidence) to \<^verbatim>\<open>PenghitungRitase.proses_deteksi\<close>, with no other call in between; the
  return values in order and the final state.\<close>

fun feed_ritase ::
  "PenghitungRitase \<Rightarrow> (int \<times> int \<times> int \<times> real) list \<Rightarrow> bool list \<times> PenghitungRitase" where
  "feed_ritase s [] = ([], s)"
| "feed_ritase s ((tracker_id, class_id, frame_index, confidence) # ds) =
     (let (r, s1) = ritase_proses_deteksi s tracker_id class_id frame_index confidence;
          (rs, s2) = feed_ritase s1 ds
      in (r # rs, s2))"

text \<open>The sum, over all entries of \<^verbatim>\<open>data_truk\<close>, of what a truck's count has gained since
  the state \<open>s0\<close> at which the running global cycle started: the counts attributable to the
  cycle.\<close>

definition cycle_credit :: "PenghitungRitase \<Rightarrow> PenghitungRitase \<Rightarrow> int" where
  "cycle_credit s0 s =
     (\<Sum>p\<leftarrow>data_truk s. ritase_count (snd p) - dapatkan_ritase_count s0 (Some (fst p)))"

text \<open>The counts are those of the start of the cycle, but for one more ritase on the
  owner of the best detection once the cycle has a ritase; the total has grown accordingly.\<close>

definition owner_credit :: "PenghitungRitase \<Rightarrow> PenghitungRitase \<Rightarrow> bool" where
  "owner_credit s0 s =
     (if siklus_berjalan_punya_ritase s
      then (\<exists>b. ritase_terbaik_di_siklus s = Some b
              \<and> (\<forall>k. dapatkan_ritase_count s (Some k) =
                     dapatkan_ritase_count s0 (Some k) + (if k = rt_tracker_id b then 1 else 0)))
           \<and> total_ritase s = total_ritase s0 + 1
      else (\<forall>k. dapatkan_ritase_count s (Some k) = dapatkan_ritase_count s0 (Some k))
           \<and> total_ritase s = total_ritase s0)"

section \<open>Helper facts: association lists and the steps of PenghitungPassing\<close>

lemma has_key_update [simp]: "has_key (AList.update k v d) k' = (k' = k \<or> has_key d k')"
  by (auto simp: has_key_def update_conv')

lemma has_key_map_entry [simp]: "has_key (AList.map_entry k f d) k' = has_key d k'"
  by (auto simp: has_key_def map_of_map_entry split: option.splits)

lemma fst_ambil_excavator:
  "fst (ambil_excavator s t) = (if has_key (excavators s) t then s else inisialisasi_excavator s t)"
  by (auto simp: ambil_excavator_def has_key_def split: option.splits)

lemma snd_ambil_excavator:
  "map_of (excavators (fst (ambil_excavator s t))) t = Some (snd (ambil_excavator s t))"
  by (auto simp: ambil_excavator_def inisialisasi_excavator_def update_conv' split: option.splits)

lemma best_dump_ambil:
  "best_dump (snd (ambil_excavator s t)) = kandidat_terbaik s t"
  by (auto simp: ambil_excavator_def kandidat_terbaik_def split: option.splits)

lemma ambil_fields [simp]:
  "counted_dumps (fst (ambil_excavator s t)) = counted_dumps s"
  "min_confidence (fst (ambil_excavator s t)) = min_confidence s"
  "total_passing (fst (ambil_excavator s t)) = total_passing s"
  "active_cycle (fst (ambil_excavator s t)) = active_cycle s"
  by (auto simp: ambil_excavator_def inisialisasi_excavator_def split: option.splits)

lemma ambil_count [simp]:
  "dapatkan_passing_count (fst (ambil_excavator s t)) k = dapatkan_passing_count s k"
  by (auto simp: ambil_excavator_def inisialisasi_excavator_def dapatkan_passing_count_def update_conv'
      split: option.splits)

lemma ambil_kandidat [simp]:
  "kandidat_terbaik (fst (ambil_excavator s t)) k = kandidat_terbaik s k"
  by (auto simp: ambil_excavator_def inisialisasi_excavator_def kandidat_terbaik_def update_conv'
      split: option.splits)

lemma passing_rejected:
  assumes "class_id \<noteq> CLASS_BUCKET_DUMPING \<or> detection_id t f \<in> counted_dumps s \<or> c < min_confidence s"
  shows "passing_proses_deteksi s t class_id f c = (False, fst (ambil_excavator s t))"
  using assms by (auto simp: passing_proses_deteksi_def Let_def case_prod_beta)

lemma passing_first:
  assumes "detection_id t f \<notin> counted_dumps s" "min_confidence s \<le> c" "kandidat_terbaik s t = None"
  shows "passing_proses_deteksi s t CLASS_BUCKET_DUMPING f c =
    (True, (fst (ambil_excavator s t))
       \<lparr>active_cycle := defaultdict_append (active_cycle s) t
           \<lparr>dd_dump_id = detection_id t f, dd_frame_index = f, dd_confidence = c\<rparr>,
        excavators := AList.map_entry t
           (\<lambda>e. e\<lparr>best_dump := Some \<lparr>bd_dump_id = detection_id t f, bd_frame_index = f, bd_confidence = c\<rparr>,
                   passing_count := passing_count e + 1\<rparr>) (excavators (fst (ambil_excavator s t))),
        total_passing := total_passing s + 1,
        counted_dumps := insert (detection_id t f) (counted_dumps s)\<rparr>)"
  using assms best_dump_ambil[of s t]
  by (auto simp: passing_proses_deteksi_def Let_def case_prod_beta)

lemma passing_better:
  assumes "detection_id t f \<notin> counted_dumps s" "min_confidence s \<le> c"
    "kandidat_terbaik s t = Some b" "bd_confidence b < c"
  shows "passing_proses_deteksi s t CLASS_BUCKET_DUMPING f c =
    (False, (fst (ambil_excavator s t))
       \<lparr>active_cycle := defaultdict_append (active_cycle s) t
           \<lparr>dd_dump_id = detection_id t f, dd_frame_index = f, dd_confidence = c\<rparr>,
        excavators := AList.map_entry t
           (\<lambda>e. e\<lparr>best_dump := Some \<lparr>bd_dump_id = detection_id t f, bd_frame_index = f, bd_confidence = c\<rparr>\<rparr>)
             (excavators (fst (ambil_excavator s t))),
        counted_dumps := insert (detection_id t f) (counted_dumps s)\<rparr>)"
  using assms best_dump_ambil[of s t]
  by (auto simp: passing_proses_deteksi_def Let_def case_prod_beta)

lemma passing_not_better:
  assumes "detection_id t f \<notin> counted_dumps s" "min_confidence s \<le> c"
    "kandidat_terbaik s t = Some b" "c \<le> bd_confidence b"
  shows "passing_proses_deteksi s t CLASS_BUCKET_DUMPING f c =
    (False, (fst (ambil_excavator s t))
       \<lparr>active_cycle := defaultdict_append (active_cycle s) t
           \<lparr>dd_dump_id = detection_id t f, dd_frame_index = f, dd_confidence = c\<rparr>,
        counted_dumps := insert (detection_id t f) (counted_dumps s)\<rparr>)"
  using assms best_dump_ambil[of s t]
  by (auto simp: passing_proses_deteksi_def Let_def case_prod_beta)

lemma sum_list_update:
  "(\<Sum>p\<leftarrow>AList.update k v d. g (snd p)) =
   (\<Sum>p\<leftarrow>d. g (snd p)) + g v - (case map_of d k of None \<Rightarrow> 0 | Some old \<Rightarrow> (g old :: int))"
  by (induction d) auto

lemma sum_list_map_entry:
  "(\<Sum>p\<leftarrow>AList.map_entry k f d. g (snd p)) =
   (\<Sum>p\<leftarrow>d. g (snd p)) + (case map_of d k of None \<Rightarrow> 0 | Some old \<Rightarrow> (g (f old) - g old :: int))"
  by (induction d) auto

lemma jumlah_inisialisasi:
  "\<not> has_key (excavators s) t \<Longrightarrow> jumlah_passing (inisialisasi_excavator s t) = jumlah_passing s"
  by (simp add: jumlah_passing_def inisialisasi_excavator_def sum_list_update has_key_def)

lemma jumlah_ambil [simp]: "jumlah_passing (fst (ambil_excavator s t)) = jumlah_passing s"
  by (simp add: fst_ambil_excavator jumlah_inisialisasi)

lemma has_key_ambil [simp]: "has_key (excavators (fst (ambil_excavator s t))) t"
  using snd_ambil_excavator[of s t] by (simp add: has_key_def)

lemma jumlah_proses:
  "jumlah_passing (snd (passing_proses_deteksi s t class_id f c)) - total_passing (snd (passing_proses_deteksi s t class_id f c))
   = jumlah_passing s - total_passing s"
proof -
  consider (rej) "class_id \<noteq> CLASS_BUCKET_DUMPING \<or> detection_id t f \<in> counted_dumps s \<or> c < min_confidence s"
    | (first) "class_id = CLASS_BUCKET_DUMPING" "detection_id t f \<notin> counted_dumps s" "min_confidence s \<le> c" "kandidat_terbaik s t = None"
    | (better) b where "class_id = CLASS_BUCKET_DUMPING" "detection_id t f \<notin> counted_dumps s" "min_confidence s \<le> c" "kandidat_terbaik s t = Some b" "bd_confidence b < c"
    | (worse) b where "class_id = CLASS_BUCKET_DUMPING" "detection_id t f \<notin> counted_dumps s" "min_confidence s \<le> c" "kandidat_terbaik s t = Some b" "c \<le> bd_confidence b"
  proof (cases "kandidat_terbaik s t")
    case None
    with rej first show ?thesis by (cases "min_confidence s \<le> c") auto
  next
    case (Some b)
    with rej better[of b] worse[of b] show ?thesis
      by (cases "min_confidence s \<le> c"; cases "bd_confidence b < c") auto
  qed
  then show ?thesis
  proof cases
    case rej
    then show ?thesis by (simp add: passing_rejected)
  next
    case first
    have "jumlah_passing ((fst (ambil_excavator s t))
       \<lparr>active_cycle := defaultdict_append (active_cycle s) t
           \<lparr>dd_dump_id = detection_id t f, dd_frame_index = f, dd_confidence = c\<rparr>,
        excavators := AList.map_entry t
           (\<lambda>e. e\<lparr>best_dump := Some \<lparr>bd_dump_id = detection_id t f, bd_frame_index = f, bd_confidence = c\<rparr>,
                   passing_count := passing_count e + 1\<rparr>) (excavators (fst (ambil_excavator s t))),
        total_passing := total_passing s + 1,
        counted_dumps := insert (detection_id t f) (counted_dumps s)\<rparr>) = jumlah_passing (fst (ambil_excavator s t)) + 1"
      using snd_ambil_excavator[of s t]
      by (simp add: jumlah_passing_def sum_list_map_entry)
    with first show ?thesis by (simp add: passing_first)
  next
    case better
    have "jumlah_passing ((fst (ambil_excavator s t))
       \<lparr>active_cycle := defaultdict_append (active_cycle s) t
           \<lparr>dd_dump_id = detection_id t f, dd_frame_index = f, dd_confidence = c\<rparr>,
        excavators := AList.map_entry t
           (\<lambda>e. e\<lparr>best_dump := Some \<lparr>bd_dump_id = detection_id t f, bd_frame_index = f, bd_confidence = c\<rparr>\<rparr>)
             (excavators (fst (ambil_excavator s t))),
        counted_dumps := insert (detection_id t f) (counted_dumps s)\<rparr>) = jumlah_passing (fst (ambil_excavator s t))"
      using snd_ambil_excavator[of s t]
      by (simp add: jumlah_passing_def sum_list_map_entry)
    with better show ?thesis by (simp add: passing_better)
  next
    case worse
    then show ?thesis using jumlah_ambil[of s t] by (simp add: passing_not_better jumlah_passing_def)
  qed
qed

lemma jumlah_selesaikan: "jumlah_passing (passing_selesaikan_siklus s t) = jumlah_passing s"
  by (simp add: passing_selesaikan_siklus_def jumlah_passing_def Let_def sum_list_map_entry split: option.splits)

lemma total_selesaikan: "total_passing (passing_selesaikan_siklus s t) = total_passing s"
  by (simp add: passing_selesaikan_siklus_def Let_def)

lemma jumlah_reset: "jumlah_passing (reset_all_counters s) = 0"
  by (simp add: reset_all_counters_def jumlah_passing_def comp_def case_prod_beta)

lemma inv_reachable: "passing_reachable s \<Longrightarrow> total_passing s = jumlah_passing s"
proof (induction rule: passing_reachable.induct)
  case (reach_init mc)
  show ?case by (simp add: PenghitungPassing_init_def jumlah_passing_def)
next
  case (reach_proses s t cl f c)
  with jumlah_proses[of s t cl f c] show ?case by simp
next
  case (reach_selesaikan s t)
  then show ?case by (simp add: jumlah_selesaikan total_selesaikan)
next
  case (reach_reset s)
  show ?case by (simp add: jumlah_reset) (simp add: reset_all_counters_def)
qed

lemma passing_cases:
  obtains (rej) "class_id \<noteq> CLASS_BUCKET_DUMPING \<or> detection_id t f \<in> counted_dumps s \<or> c < min_confidence s"
    | (first) "class_id = CLASS_BUCKET_DUMPING" "detection_id t f \<notin> counted_dumps s" "min_confidence s \<le> c" "kandidat_terbaik s t = None"
    | (better) b where "class_id = CLASS_BUCKET_DUMPING" "detection_id t f \<notin> counted_dumps s" "min_confidence s \<le> c" "kandidat_terbaik s t = Some b" "bd_confidence b < c"
    | (worse) b where "class_id = CLASS_BUCKET_DUMPING" "detection_id t f \<notin> counted_dumps s" "min_confidence s \<le> c" "kandidat_terbaik s t = Some b" "c \<le> bd_confidence b"
proof (cases "kandidat_terbaik s t")
  case None
  with rej first show ?thesis by (cases "min_confidence s \<le> c") auto
next
  case (Some b)
  with rej better[of b] worse[of b] show ?thesis
    by (cases "min_confidence s \<le> c"; cases "bd_confidence b < c") auto
qed

lemma kandidat_map_entry:
  "kandidat_terbaik (s\<lparr>excavators := AList.map_entry t g (excavators s)\<rparr>) k =
     (if k = t then (case map_of (excavators s) t of None \<Rightarrow> None | Some e \<Rightarrow> best_dump (g e))
      else kandidat_terbaik s k)"
  by (simp add: kandidat_terbaik_def map_of_map_entry split: option.splits)

lemma count_map_entry:
  "dapatkan_passing_count (s\<lparr>excavators := AList.map_entry t g (excavators s)\<rparr>) (Some k) =
     (if k = t then (case map_of (excavators s) t of None \<Rightarrow> 0 | Some e \<Rightarrow> passing_count (g e))
      else dapatkan_passing_count s (Some k))"
  by (simp add: dapatkan_passing_count_def map_of_map_entry split: option.splits)

lemma passing_fst:
  "fst (passing_proses_deteksi s t CLASS_BUCKET_DUMPING f c) =
     (qualifies s t (f, c) \<and> kandidat_terbaik s t = None)"
  by (cases rule: passing_cases[where s=s and t=t and f=f and c=c and class_id=CLASS_BUCKET_DUMPING])
     (auto simp: passing_rejected passing_first passing_better passing_not_better qualifies_def)

lemma passing_total:
  "total_passing (snd (passing_proses_deteksi s t class_id f c)) =
     total_passing s + (if fst (passing_proses_deteksi s t class_id f c) then 1 else 0)"
  by (cases rule: passing_cases[where s=s and t=t and f=f and c=c and class_id=class_id])
     (auto simp: passing_rejected passing_first passing_better passing_not_better)

lemma count_fields [simp]:
  "dapatkan_passing_count (s\<lparr>active_cycle := a\<rparr>) k = dapatkan_passing_count s k"
  "dapatkan_passing_count (s\<lparr>counted_dumps := cd\<rparr>) k = dapatkan_passing_count s k"
  "dapatkan_passing_count (s\<lparr>total_passing := n\<rparr>) (Some t) = dapatkan_passing_count s (Some t)"
  by (simp_all add: dapatkan_passing_count_def split: option.splits)

lemma kandidat_fields [simp]:
  "kandidat_terbaik (s\<lparr>active_cycle := a\<rparr>) k = kandidat_terbaik s k"
  "kandidat_terbaik (s\<lparr>counted_dumps := cd\<rparr>) k = kandidat_terbaik s k"
  "kandidat_terbaik (s\<lparr>total_passing := n\<rparr>) k = kandidat_terbaik s k"
  by (simp_all add: kandidat_terbaik_def)

lemma passing_count_ambil:
  "passing_count (snd (ambil_excavator s t)) =
     (case map_of (excavators s) t of None \<Rightarrow> 0 | Some e \<Rightarrow> passing_count e)"
  by (auto simp: ambil_excavator_def split: option.splits)

lemma ambil_lookup_other:
  "k \<noteq> t \<Longrightarrow> map_of (excavators (fst (ambil_excavator s t))) k = map_of (excavators s) k"
  by (auto simp: ambil_excavator_def inisialisasi_excavator_def update_conv' split: option.splits)

lemma passing_count_step:
  "dapatkan_passing_count (snd (passing_proses_deteksi s t class_id f c)) (Some k) =
     dapatkan_passing_count s (Some k) +
       (if k = t \<and> fst (passing_proses_deteksi s t class_id f c) then 1 else 0)"
proof (cases rule: passing_cases[where s=s and t=t and f=f and c=c and class_id=class_id])
  case rej
  then show ?thesis by (simp add: passing_rejected)
next
  case first
  then show ?thesis
    by (simp add: passing_first dapatkan_passing_count_def map_of_map_entry snd_ambil_excavator
        passing_count_ambil ambil_lookup_other)
next
  case (better b)
  then show ?thesis
    by (simp add: passing_better dapatkan_passing_count_def map_of_map_entry snd_ambil_excavator
        passing_count_ambil ambil_lookup_other)
next
  case (worse b)
  then show ?thesis by (simp add: passing_not_better)
qed

lemma passing_kandidat_step:
  "kandidat_terbaik (snd (passing_proses_deteksi s t CLASS_BUCKET_DUMPING f c)) t =
     (if qualifies s t (f, c) \<and>
         (case kandidat_terbaik s t of None \<Rightarrow> True | Some b \<Rightarrow> bd_confidence b < c)
      then Some \<lparr>bd_dump_id = detection_id t f, bd_frame_index = f, bd_confidence = c\<rparr>
      else kandidat_terbaik s t)"
proof (cases rule: passing_cases[where s=s and t=t and f=f and c=c and class_id=CLASS_BUCKET_DUMPING])
  case rej
  then show ?thesis by (auto simp: passing_rejected qualifies_def)
next
  case first
  have "kandidat_terbaik (fst (ambil_excavator s t)) t = kandidat_terbaik s t" by simp
  with first snd_ambil_excavator[of s t] show ?thesis
    by (simp add: passing_first kandidat_terbaik_def map_of_map_entry qualifies_def)
next
  case (better b)
  have "kandidat_terbaik (fst (ambil_excavator s t)) t = kandidat_terbaik s t" by simp
  with better snd_ambil_excavator[of s t] show ?thesis
    by (simp add: passing_better kandidat_terbaik_def map_of_map_entry qualifies_def)
next
  case (worse b)
  then show ?thesis by (simp add: passing_not_better qualifies_def)
qed

lemma passing_counted_step:
  "counted_dumps (snd (passing_proses_deteksi s t CLASS_BUCKET_DUMPING f c)) =
     (if qualifies s t (f, c) then insert (detection_id t f) (counted_dumps s) else counted_dumps s)"
  by (cases rule: passing_cases[where s=s and t=t and f=f and c=c and class_id=CLASS_BUCKET_DUMPING])
     (auto simp: passing_rejected passing_first passing_better passing_not_better qualifies_def)

lemma passing_min_step:
  "min_confidence (snd (passing_proses_deteksi s t class_id f c)) = min_confidence s"
  by (cases rule: passing_cases[where s=s and t=t and f=f and c=c and class_id=class_id])
     (auto simp: passing_rejected passing_first passing_better passing_not_better)

lemma feed_after_candidate:
  "kandidat_terbaik s t \<noteq> None \<Longrightarrow> fst (feed_dumps s t ds) = map (\<lambda>_. False) ds"
proof (induction ds arbitrary: s)
  case Nil
  show ?case by simp
next
  case (Cons d ds)
  have "kandidat_terbaik (snd (passing_proses_deteksi s t CLASS_BUCKET_DUMPING (fst d) (snd d))) t \<noteq> None"
    using Cons.prems by (simp add: passing_kandidat_step)
  from Cons.IH[OF this] Cons.prems show ?case
    by (simp add: case_prod_beta passing_fst)
qed

lemma feed_from_empty:
  "kandidat_terbaik s t = None \<Longrightarrow> fst (feed_dumps s t ds) = first_only (map (qualifies s t) ds)"
proof (induction ds arbitrary: s)
  case Nil
  show ?case by simp
next
  case (Cons d ds)
  let ?s1 = "snd (passing_proses_deteksi s t CLASS_BUCKET_DUMPING (fst d) (snd d))"
  show ?case
  proof (cases "qualifies s t d")
    case True
    then have "kandidat_terbaik ?s1 t \<noteq> None"
      using Cons.prems passing_kandidat_step[of s t "fst d" "snd d"] by simp
    from feed_after_candidate[OF this] True Cons.prems show ?thesis
      using passing_fst[of s t "fst d" "snd d"] by (simp add: case_prod_beta)
  next
    case False
    then have k: "kandidat_terbaik ?s1 t = None"
      using Cons.prems passing_kandidat_step[of s t "fst d" "snd d"] by simp
    have q: "qualifies ?s1 t = qualifies s t"
      using False passing_counted_step[of s t "fst d" "snd d"]
      by (auto simp: qualifies_def fun_eq_iff passing_min_step)
    from Cons.IH[OF k] False q show ?thesis
      using passing_fst[of s t "fst d" "snd d"] by (simp add: case_prod_beta)
  qed
qed

lemma feed_totals:
  "total_passing (snd (feed_dumps s t ds)) = total_passing s + int (count_list (fst (feed_dumps s t ds)) True)
   \<and> dapatkan_passing_count (snd (feed_dumps s t ds)) (Some t) =
       dapatkan_passing_count s (Some t) + int (count_list (fst (feed_dumps s t ds)) True)"
proof (induction ds arbitrary: s)
  case Nil
  show ?case by simp
next
  case (Cons d ds)
  show ?case
    using Cons.IH[of "snd (passing_proses_deteksi s t CLASS_BUCKET_DUMPING (fst d) (snd d))"]
    by (simp add: case_prod_beta passing_total passing_count_step)
qed

lemma count_first_only: "count_list (first_only bs) True \<le> 1"
  by (induction bs) (auto simp: count_list_0_iff)

lemma count_all_False: "count_list (map (\<lambda>_. False) ds) True = 0"
  by (induction ds) auto

lemma feed_at_most_one: "count_list (fst (feed_dumps s t ds)) True \<le> 1"
proof (cases "kandidat_terbaik s t = None")
  case True
  then show ?thesis using count_first_only[of "map (qualifies s t) ds"] by (simp add: feed_from_empty)
next
  case False
  then show ?thesis by (simp add: feed_after_candidate count_all_False)
qed

section \<open>PenghitungPassing: the full reset\<close>

lemma reset_all_counters_entries:
  "list_all (\<lambda>p. passing_count (snd p) = 0 \<and> best_dump (snd p) = None) (excavators (reset_all_counters s))"
  by (simp add: reset_all_counters_def list_all_iff case_prod_beta)

lemma reset_all_counters_lookup:
  "map_of (excavators (reset_all_counters s)) k =
     map_option (\<lambda>e. e\<lparr>passing_count := 0, best_dump := None\<rparr>) (map_of (excavators s) k)"
proof -
  have "map_of (map (\<lambda>(t, e). (t, e\<lparr>passing_count := 0, best_dump := None\<rparr>)) d) k =
        map_option (\<lambda>e. e\<lparr>passing_count := 0, best_dump := None\<rparr>) (map_of d k)" for d :: "(int, ExcavatorData) dict"
    by (induction d) auto
  then show ?thesis by (simp add: reset_all_counters_def)
qed

lemma reset_all_counters_count: "dapatkan_passing_count (reset_all_counters s) k = 0"
  by (cases k) (auto simp: dapatkan_passing_count_def reset_all_counters_lookup split: option.splits,
      simp add: reset_all_counters_def)

lemma reset_all_counters_kandidat: "kandidat_terbaik (reset_all_counters s) k = None"
  by (auto simp: kandidat_terbaik_def reset_all_counters_lookup split: option.splits)

text \<open>
  Claim C8. \<^verbatim>\<open>reset_all_counters\<close> leaves every entry of \<^verbatim>\<open>excavators\<close> with
  count 0 and no candidate (the keys stay), sets \<^verbatim>\<open>total_passing\<close> to 0, and empties the
  active-cycle map and the set of counted identities. A dump detection fed afterwards whose
  confidence reaches the threshold is therefore accepted and counted as a new passing,
  whatever its identity: also one that was in the set before the reset.
\<close>

theorem reset_all_counters_full:
  "list_all (\<lambda>p. passing_count (snd p) = 0 \<and> best_dump (snd p) = None)
     (excavators (reset_all_counters s))
   \<and> map fst (excavators (reset_all_counters s)) = map fst (excavators s)
   \<and> dapatkan_passing_count (reset_all_counters s) k = 0
   \<and> total_passing (reset_all_counters s) = 0
   \<and> active_cycle (reset_all_counters s) = []
   \<and> counted_dumps (reset_all_counters s) = {}
   \<and> min_confidence (reset_all_counters s) = min_confidence s
   \<and> (min_confidence s \<le> confidence \<longrightarrow>
        fst (passing_proses_deteksi (reset_all_counters s) tracker_id CLASS_BUCKET_DUMPING
               frame_index confidence)
        \<and> total_passing (snd (passing_proses_deteksi (reset_all_counters s) tracker_id
               CLASS_BUCKET_DUMPING frame_index confidence)) = 1
        \<and> dapatkan_passing_count (snd (passing_proses_deteksi (reset_all_counters s) tracker_id
               CLASS_BUCKET_DUMPING frame_index confidence)) (Some tracker_id) = 1)"
proof -
  have a: "map fst (excavators (reset_all_counters s)) = map fst (excavators s)"
    by (simp add: reset_all_counters_def comp_def case_prod_beta)
  have b: "total_passing (reset_all_counters s) = 0" "active_cycle (reset_all_counters s) = []"
    "counted_dumps (reset_all_counters s) = {}" "min_confidence (reset_all_counters s) = min_confidence s"
    by (simp_all add: reset_all_counters_def)
  have c: "fst (passing_proses_deteksi (reset_all_counters s) tracker_id CLASS_BUCKET_DUMPING
               frame_index confidence)" if "min_confidence s \<le> confidence"
    using that by (simp add: passing_fst qualifies_def b reset_all_counters_kandidat)
  show ?thesis
    using a b c reset_all_counters_entries[of s] reset_all_counters_count
    by (simp add: passing_total passing_count_step)
qed

theorem reset_all_counters_full_witness:
  "detection_id 1 10 \<in> counted_dumps (snd (passing_proses_deteksi (PenghitungPassing_init 0.8) 1 2 10 0.81))
   \<and> fst (passing_proses_deteksi
        (reset_all_counters (snd (passing_proses_deteksi (PenghitungPassing_init 0.8) 1 2 10 0.81)))
        1 CLASS_BUCKET_DUMPING 10 0.81)"
proof -
  have m: "min_confidence (snd (passing_proses_deteksi (PenghitungPassing_init 0.8) 1 2 10 0.81)) \<le> 0.81"
    by (simp add: passing_min_step PenghitungPassing_init_def)
  have "qualifies (PenghitungPassing_init 0.8) 1 (10, 0.81)"
    by (simp add: qualifies_def PenghitungPassing_init_def)
  then have "detection_id 1 10 \<in> counted_dumps (snd (passing_proses_deteksi (PenghitungPassing_init 0.8) 1 CLASS_BUCKET_DUMPING 10 0.81))"
    by (simp add: passing_counted_step)
  then show ?thesis
    using m reset_all_counters_full[where s="snd (passing_proses_deteksi (PenghitungPassing_init 0.8) 1 2 10 0.81)"
        and k=None and confidence="0.81" and tracker_id=1 and frame_index=10]
    by (simp add: CLASS_BUCKET_DUMPING_def)
qed

section \<open>PenghitungPassing: rejected detections\<close>

text \<open>
  Claim C7, as amended. A detection of \<^verbatim>\<open>PenghitungPassing.proses_deteksi\<close> with a class
  other than \<^verbatim>\<open>bucket_dumping\<close>, or a dump detection whose identity is already counted or
  whose confidence is below the threshold, returns \<^verbatim>\<open>False\<close> and changes no count. The state
  after the call is the state before it when the tracker already has an entry in
  \<^verbatim>\<open>excavators\<close>; for an unseen tracker the call has first created its entry (count 0, no
  candidate), and that is the only difference.
\<close>

theorem passing_rejected_detection:
  assumes "class_id \<noteq> CLASS_BUCKET_DUMPING
           \<or> detection_id tracker_id frame_index \<in> counted_dumps s
           \<or> confidence < min_confidence s"
  shows "passing_proses_deteksi s tracker_id class_id frame_index confidence =
           (False, if has_key (excavators s) tracker_id then s
                   else inisialisasi_excavator s tracker_id)
         \<and> dapatkan_passing_count
             (snd (passing_proses_deteksi s tracker_id class_id frame_index confidence)) k =
           dapatkan_passing_count s k"
  using assms passing_rejected[of class_id tracker_id frame_index s confidence]
    fst_ambil_excavator[of s tracker_id] ambil_count[of s tracker_id k]
  by simp

theorem passing_rejected_detection_witness:
  "(0.7::real) < min_confidence (PenghitungPassing_init 0.8)
   \<and> passing_proses_deteksi (PenghitungPassing_init 0.8) 1 2 12 0.7 =
       (False, inisialisasi_excavator (PenghitungPassing_init 0.8) 1)
   \<and> has_key (excavators (inisialisasi_excavator (PenghitungPassing_init 0.8) 1)) 1
   \<and> passing_proses_deteksi (inisialisasi_excavator (PenghitungPassing_init 0.8) 1) 1 1 12 0.9 =
       (False, inisialisasi_excavator (PenghitungPassing_init 0.8) 1)"
  using passing_rejected_detection[where class_id=2 and tracker_id=1 and frame_index=12
      and s="PenghitungPassing_init 0.8" and confidence="0.7" and k=None]
    passing_rejected_detection[where class_id=1 and tracker_id=1 and frame_index=12
      and s="inisialisasi_excavator (PenghitungPassing_init 0.8) 1" and confidence="0.9" and k=None]
  by (simp add: PenghitungPassing_init_def has_key_def inisialisasi_excavator_def CLASS_BUCKET_DUMPING_def)

text \<open>
  The claim as stated (the state after a rejected call equals the state before it, for every
  state) fails on a fresh counter: both a non-dump detection and a dump below the threshold
  leave the entry of tracker 1 behind.
\<close>

theorem passing_rejected_changes_state:
  "snd (passing_proses_deteksi (PenghitungPassing_init 0.8) 1 1 0 0.9) \<noteq> PenghitungPassing_init 0.8
   \<and> snd (passing_proses_deteksi (PenghitungPassing_init 0.8) 1 2 0 0.5) \<noteq> PenghitungPassing_init 0.8"
proof -
  have "excavators (snd (passing_proses_deteksi (PenghitungPassing_init 0.8) 1 1 0 0.9)) \<noteq> []"
    by (simp add: passing_rejected CLASS_BUCKET_DUMPING_def fst_ambil_excavator has_key_def
        PenghitungPassing_init_def inisialisasi_excavator_def)
  moreover have "excavators (snd (passing_proses_deteksi (PenghitungPassing_init 0.8) 1 2 0 0.5)) \<noteq> []"
    by (simp add: passing_rejected fst_ambil_excavator has_key_def
        PenghitungPassing_init_def inisialisasi_excavator_def)
  moreover have "excavators (PenghitungPassing_init 0.8) = []"
    by (simp add: PenghitungPassing_init_def)
  ultimately show ?thesis by metis
qed

section \<open>PenghitungPassing: the total is the sum of the counts\<close>

lemma statistik_detail_sum:
  "(\<Sum>p\<leftarrow>snd (passing_dapatkan_statistik s). fst (snd p)) = jumlah_passing s"
  by (simp add: passing_dapatkan_statistik_def jumlah_passing_def comp_def case_prod_beta)

text \<open>
  Claim C4. In every reachable state of \<^verbatim>\<open>PenghitungPassing\<close> the total equals the sum of
  \<^verbatim>\<open>passing_count\<close> over the entries of \<^verbatim>\<open>excavators\<close>, and the two queries report
  that total. The equality holds at construction and each mutating method keeps it, from any
  state in which it holds (\<^verbatim>\<open>reset_all_counters\<close> establishes it from any state). The
  query methods are projections of the state and change nothing.
\<close>

theorem total_passing_is_sum:
  "(passing_reachable s \<longrightarrow>
      total_passing s = jumlah_passing s
      \<and> dapatkan_passing_count s None = jumlah_passing s
      \<and> fst (passing_dapatkan_statistik s) =
          (\<Sum>p\<leftarrow>snd (passing_dapatkan_statistik s). fst (snd p)))
   \<and> total_passing (PenghitungPassing_init mc) = jumlah_passing (PenghitungPassing_init mc)
   \<and> (total_passing s = jumlah_passing s \<longrightarrow>
        total_passing (snd (passing_proses_deteksi s tracker_id class_id frame_index confidence)) =
          jumlah_passing (snd (passing_proses_deteksi s tracker_id class_id frame_index confidence))
        \<and> total_passing (passing_selesaikan_siklus s tracker_id) =
            jumlah_passing (passing_selesaikan_siklus s tracker_id))
   \<and> total_passing (reset_all_counters s) = jumlah_passing (reset_all_counters s)"
proof -
  have r: "total_passing s = jumlah_passing s
      \<and> dapatkan_passing_count s None = jumlah_passing s
      \<and> fst (passing_dapatkan_statistik s) =
          (\<Sum>p\<leftarrow>snd (passing_dapatkan_statistik s). fst (snd p))" if "passing_reachable s"
    using inv_reachable[OF that] statistik_detail_sum[of s]
    by (simp add: dapatkan_passing_count_def) (simp add: passing_dapatkan_statistik_def)
  have i: "total_passing (PenghitungPassing_init mc) = jumlah_passing (PenghitungPassing_init mc)"
    by (simp add: PenghitungPassing_init_def jumlah_passing_def)
  have p: "total_passing (snd (passing_proses_deteksi s tracker_id class_id frame_index confidence)) =
          jumlah_passing (snd (passing_proses_deteksi s tracker_id class_id frame_index confidence))"
    if "total_passing s = jumlah_passing s"
    using that jumlah_proses[of s tracker_id class_id frame_index confidence] by simp
  have e: "total_passing (passing_selesaikan_siklus s tracker_id) =
            jumlah_passing (passing_selesaikan_siklus s tracker_id)"
    if "total_passing s = jumlah_passing s"
    using that by (simp add: jumlah_selesaikan total_selesaikan)
  have z: "total_passing (reset_all_counters s) = jumlah_passing (reset_all_counters s)"
    by (simp add: jumlah_reset) (simp add: reset_all_counters_def)
  from r i p e z show ?thesis by blast
qed

lemma contoh_dua_excavator:
  "snd (passing_proses_deteksi (snd (passing_proses_deteksi (PenghitungPassing_init 0.8) 1 2 10 0.81)) 2 2 10 0.9)
   = \<lparr>excavators = [(1, \<lparr>passing_count = 1, best_dump = Some \<lparr>bd_dump_id = ''1_10'', bd_frame_index = 10, bd_confidence = 0.81\<rparr>\<rparr>),
                     (2, \<lparr>passing_count = 1, best_dump = Some \<lparr>bd_dump_id = ''2_10'', bd_frame_index = 10, bd_confidence = 0.9\<rparr>\<rparr>)],
      counted_dumps = {''2_10'', ''1_10''}, min_confidence = 0.8, total_passing = 2,
      active_cycle = [(1, [\<lparr>dd_dump_id = ''1_10'', dd_frame_index = 10, dd_confidence = 0.81\<rparr>]),
                      (2, [\<lparr>dd_dump_id = ''2_10'', dd_frame_index = 10, dd_confidence = 0.9\<rparr>])]\<rparr>"
  by (simp add: passing_proses_deteksi_def ambil_excavator_def inisialisasi_excavator_def
      PenghitungPassing_init_def CLASS_BUCKET_DUMPING_def detection_id_def str_int_def
      digits_of.simps defaultdict_append_def Let_def)

theorem total_passing_is_sum_witness:
  "passing_reachable
     (snd (passing_proses_deteksi (snd (passing_proses_deteksi (PenghitungPassing_init 0.8) 1 2 10 0.81)) 2 2 10 0.9))
   \<and> total_passing
     (snd (passing_proses_deteksi (snd (passing_proses_deteksi (PenghitungPassing_init 0.8) 1 2 10 0.81)) 2 2 10 0.9)) = 2
   \<and> jumlah_passing
     (snd (passing_proses_deteksi (snd (passing_proses_deteksi (PenghitungPassing_init 0.8) 1 2 10 0.81)) 2 2 10 0.9)) = 2"
proof -
  let ?s = "snd (passing_proses_deteksi (snd (passing_proses_deteksi (PenghitungPassing_init 0.8) 1 2 10 0.81)) 2 2 10 0.9)"
  have r: "passing_reachable ?s"
    by (intro passing_reachable.intros)
  have t: "total_passing ?s = 2" by (subst contoh_dua_excavator) simp
  from r t total_passing_is_sum[where s="?s"] show ?thesis by simp
qed

section \<open>PenghitungPassing: one passing per cycle\<close>

lemma contoh_satu_dump:
  "passing_proses_deteksi (PenghitungPassing_init 0.8) 1 CLASS_BUCKET_DUMPING 10 0.81 =
     (True,
      \<lparr>excavators = [(1, \<lparr>passing_count = 1, best_dump = Some \<lparr>bd_dump_id = ''1_10'', bd_frame_index = 10, bd_confidence = 0.81\<rparr>\<rparr>)],
       counted_dumps = {''1_10''}, min_confidence = 0.8, total_passing = 1,
       active_cycle = [(1, [\<lparr>dd_dump_id = ''1_10'', dd_frame_index = 10, dd_confidence = 0.81\<rparr>])]\<rparr>)"
  by (simp add: passing_proses_deteksi_def ambil_excavator_def inisialisasi_excavator_def
      PenghitungPassing_init_def CLASS_BUCKET_DUMPING_def detection_id_def str_int_def
      digits_of.simps defaultdict_append_def Let_def)

lemma contoh_tiga_dump:
  "feed_dumps (PenghitungPassing_init 0.8) 1 [(10, 0.81), (11, 0.95), (12, 0.70)] =
     ([True, False, False],
      \<lparr>excavators = [(1, \<lparr>passing_count = 1, best_dump = Some \<lparr>bd_dump_id = ''1_11'', bd_frame_index = 11, bd_confidence = 0.95\<rparr>\<rparr>)],
       counted_dumps = {''1_11'', ''1_10''}, min_confidence = 0.8, total_passing = 1,
       active_cycle = [(1, [\<lparr>dd_dump_id = ''1_10'', dd_frame_index = 10, dd_confidence = 0.81\<rparr>,
                            \<lparr>dd_dump_id = ''1_11'', dd_frame_index = 11, dd_confidence = 0.95\<rparr>])]\<rparr>)"
  by (simp add: passing_proses_deteksi_def ambil_excavator_def inisialisasi_excavator_def
      PenghitungPassing_init_def CLASS_BUCKET_DUMPING_def detection_id_def str_int_def
      digits_of.simps defaultdict_append_def Let_def)

text \<open>
  Claim C2. For dump detections of one tracker:
  \<^item> a detection with a fresh identity and a confidence at or above the threshold, arriving
    when the tracker has no candidate, returns \<^verbatim>\<open>True\<close>, adds 1 to the tracker's count and
    to the total, and becomes the candidate;
  \<^item> such a detection arriving when there is a candidate of strictly lower confidence
    returns \<^verbatim>\<open>False\<close>, replaces the candidate and changes no count;
  \<^item> a detection below the threshold returns \<^verbatim>\<open>False\<close> and changes neither a count nor
    the candidate;
  \<^item> over a whole sequence fed with no other call in between, the return values are
    \<^verbatim>\<open>True\<close> exactly at the first qualifying detection when the tracker started without a
    candidate, and \<^verbatim>\<open>False\<close> throughout when it started with one; at most one call
    returns \<^verbatim>\<open>True\<close>, and the total and the tracker's count grow by the number of
    \<^verbatim>\<open>True\<close>s;
  \<^item> with threshold 0.8, confidences 0.81, 0.95, 0.70 on frames 10, 11, 12 return
    \<^verbatim>\<open>True\<close>, \<^verbatim>\<open>False\<close>, \<^verbatim>\<open>False\<close>, the count being 1 after each.
\<close>

theorem passing_counts_first_dump_only:
  "(qualifies s t (f, c) \<and> kandidat_terbaik s t = None \<longrightarrow>
      fst (passing_proses_deteksi s t CLASS_BUCKET_DUMPING f c)
      \<and> total_passing (snd (passing_proses_deteksi s t CLASS_BUCKET_DUMPING f c)) = total_passing s + 1
      \<and> dapatkan_passing_count (snd (passing_proses_deteksi s t CLASS_BUCKET_DUMPING f c)) (Some t) =
          dapatkan_passing_count s (Some t) + 1
      \<and> kandidat_terbaik (snd (passing_proses_deteksi s t CLASS_BUCKET_DUMPING f c)) t =
          Some \<lparr>bd_dump_id = detection_id t f, bd_frame_index = f, bd_confidence = c\<rparr>)
   \<and> (qualifies s t (f, c) \<and> kandidat_terbaik s t = Some b \<and> bd_confidence b < c \<longrightarrow>
      \<not> fst (passing_proses_deteksi s t CLASS_BUCKET_DUMPING f c)
      \<and> total_passing (snd (passing_proses_deteksi s t CLASS_BUCKET_DUMPING f c)) = total_passing s
      \<and> dapatkan_passing_count (snd (passing_proses_deteksi s t CLASS_BUCKET_DUMPING f c)) (Some k) =
          dapatkan_passing_count s (Some k)
      \<and> kandidat_terbaik (snd (passing_proses_deteksi s t CLASS_BUCKET_DUMPING f c)) t =
          Some \<lparr>bd_dump_id = detection_id t f, bd_frame_index = f, bd_confidence = c\<rparr>)
   \<and> (c < min_confidence s \<longrightarrow>
      \<not> fst (passing_proses_deteksi s t CLASS_BUCKET_DUMPING f c)
      \<and> total_passing (snd (passing_proses_deteksi s t CLASS_BUCKET_DUMPING f c)) = total_passing s
      \<and> dapatkan_passing_count (snd (passing_proses_deteksi s t CLASS_BUCKET_DUMPING f c)) (Some k) =
          dapatkan_passing_count s (Some k)
      \<and> kandidat_terbaik (snd (passing_proses_deteksi s t CLASS_BUCKET_DUMPING f c)) t =
          kandidat_terbaik s t)
   \<and> (kandidat_terbaik s t = None \<longrightarrow>
        fst (feed_dumps s t ds) = first_only (map (qualifies s t) ds))
   \<and> (kandidat_terbaik s t \<noteq> None \<longrightarrow> fst (feed_dumps s t ds) = map (\<lambda>_. False) ds)
   \<and> count_list (fst (feed_dumps s t ds)) True \<le> 1
   \<and> total_passing (snd (feed_dumps s t ds)) =
        total_passing s + int (count_list (fst (feed_dumps s t ds)) True)
   \<and> dapatkan_passing_count (snd (feed_dumps s t ds)) (Some t) =
        dapatkan_passing_count s (Some t) + int (count_list (fst (feed_dumps s t ds)) True)
   \<and> fst (feed_dumps (PenghitungPassing_init 0.8) 1 [(10, 0.81), (11, 0.95), (12, 0.70)]) =
        [True, False, False]
   \<and> map (\<lambda>ds. dapatkan_passing_count (snd (feed_dumps (PenghitungPassing_init 0.8) 1 ds)) (Some 1))
        [[(10, 0.81)], [(10, 0.81), (11, 0.95)], [(10, 0.81), (11, 0.95), (12, 0.70)]] = [1, 1, 1]"
proof -
  let ?r = "passing_proses_deteksi s t CLASS_BUCKET_DUMPING f c"
  have a: "fst ?r \<and> total_passing (snd ?r) = total_passing s + 1
      \<and> dapatkan_passing_count (snd ?r) (Some t) = dapatkan_passing_count s (Some t) + 1
      \<and> kandidat_terbaik (snd ?r) t =
          Some \<lparr>bd_dump_id = detection_id t f, bd_frame_index = f, bd_confidence = c\<rparr>"
    if "qualifies s t (f, c)" "kandidat_terbaik s t = None"
    using that by (simp add: passing_fst passing_total passing_count_step passing_kandidat_step)
  have b: "\<not> fst ?r \<and> total_passing (snd ?r) = total_passing s
      \<and> dapatkan_passing_count (snd ?r) (Some k) = dapatkan_passing_count s (Some k)
      \<and> kandidat_terbaik (snd ?r) t =
          Some \<lparr>bd_dump_id = detection_id t f, bd_frame_index = f, bd_confidence = c\<rparr>"
    if "qualifies s t (f, c)" "kandidat_terbaik s t = Some b" "bd_confidence b < c"
    using that by (simp add: passing_fst passing_total passing_count_step passing_kandidat_step)
  have c: "\<not> fst ?r \<and> total_passing (snd ?r) = total_passing s
      \<and> dapatkan_passing_count (snd ?r) (Some k) = dapatkan_passing_count s (Some k)
      \<and> kandidat_terbaik (snd ?r) t = kandidat_terbaik s t"
    if "c < min_confidence s"
    using that
    by (simp add: passing_fst passing_total passing_count_step passing_kandidat_step qualifies_def)
  have d: "fst (feed_dumps s t ds) = first_only (map (qualifies s t) ds)"
    if "kandidat_terbaik s t = None"
    using that by (rule feed_from_empty)
  have e: "fst (feed_dumps s t ds) = map (\<lambda>_. False) ds" if "kandidat_terbaik s t \<noteq> None"
    using that by (rule feed_after_candidate)
  have g: "fst (feed_dumps (PenghitungPassing_init 0.8) 1 [(10, 0.81), (11, 0.95), (12, 0.70)]) =
        [True, False, False]"
    by (subst contoh_tiga_dump) simp
  have h: "map (\<lambda>ds. dapatkan_passing_count (snd (feed_dumps (PenghitungPassing_init 0.8) 1 ds)) (Some 1))
        [[(10, 0.81)], [(10, 0.81), (11, 0.95)], [(10, 0.81), (11, 0.95), (12, 0.70)]] = [1, 1, 1]"
    by (simp add: passing_proses_deteksi_def ambil_excavator_def inisialisasi_excavator_def
      PenghitungPassing_init_def CLASS_BUCKET_DUMPING_def detection_id_def str_int_def
      digits_of.simps defaultdict_append_def Let_def dapatkan_passing_count_def)
  from a b c d e g h feed_at_most_one[of s t ds] feed_totals[of s t ds]
  show ?thesis by blast
qed

theorem passing_counts_first_dump_only_witness:
  "qualifies (PenghitungPassing_init 0.8) 1 (10, 0.81)
   \<and> kandidat_terbaik (PenghitungPassing_init 0.8) 1 = None
   \<and> fst (passing_proses_deteksi (PenghitungPassing_init 0.8) 1 CLASS_BUCKET_DUMPING 10 0.81)
   \<and> qualifies (snd (passing_proses_deteksi (PenghitungPassing_init 0.8) 1 CLASS_BUCKET_DUMPING 10 0.81)) 1 (11, 0.95)
   \<and> kandidat_terbaik (snd (passing_proses_deteksi (PenghitungPassing_init 0.8) 1 CLASS_BUCKET_DUMPING 10 0.81)) 1
       = Some \<lparr>bd_dump_id = ''1_10'', bd_frame_index = 10, bd_confidence = 0.81\<rparr>
   \<and> \<not> fst (passing_proses_deteksi
         (snd (passing_proses_deteksi (PenghitungPassing_init 0.8) 1 CLASS_BUCKET_DUMPING 10 0.81))
         1 CLASS_BUCKET_DUMPING 11 0.95)
   \<and> (0.7::real) < min_confidence (PenghitungPassing_init 0.8)
   \<and> \<not> fst (passing_proses_deteksi (PenghitungPassing_init 0.8) 1 CLASS_BUCKET_DUMPING 12 0.7)
   \<and> fst (feed_dumps (PenghitungPassing_init 0.8) 1 [(12, 0.7), (10, 0.81), (11, 0.95)]) =
       [False, True, False]
   \<and> fst (feed_dumps (snd (passing_proses_deteksi (PenghitungPassing_init 0.8) 1 CLASS_BUCKET_DUMPING 10 0.81))
          1 [(11, 0.95)]) = [False]"
proof -
  let ?s0 = "PenghitungPassing_init 0.8"
  let ?s1 = "snd (passing_proses_deteksi ?s0 1 CLASS_BUCKET_DUMPING 10 0.81)"
  have q0: "qualifies ?s0 1 (10, 0.81)" "kandidat_terbaik ?s0 1 = None"
    "(0.7::real) < min_confidence ?s0"
    "map (qualifies ?s0 1) [(12, 0.7), (10, 0.81), (11, 0.95)] = [False, True, True]"
    by (simp_all add: qualifies_def kandidat_terbaik_def PenghitungPassing_init_def)
  have s1: "?s1 = \<lparr>excavators = [(1, \<lparr>passing_count = 1, best_dump = Some \<lparr>bd_dump_id = ''1_10'', bd_frame_index = 10, bd_confidence = 0.81\<rparr>\<rparr>)],
       counted_dumps = {''1_10''}, min_confidence = 0.8, total_passing = 1,
       active_cycle = [(1, [\<lparr>dd_dump_id = ''1_10'', dd_frame_index = 10, dd_confidence = 0.81\<rparr>])]\<rparr>"
    by (subst contoh_satu_dump) simp
  have q1: "qualifies ?s1 1 (11, 0.95)"
    "kandidat_terbaik ?s1 1 = Some \<lparr>bd_dump_id = ''1_10'', bd_frame_index = 10, bd_confidence = 0.81\<rparr>"
    unfolding s1
    by (simp_all add: qualifies_def kandidat_terbaik_def detection_id_def str_int_def digits_of.simps)
  show ?thesis
    using q0 q1
      passing_counts_first_dump_only[where s="?s0" and t=1 and f=10 and c="0.81"
        and ds="[(12, 0.7), (10, 0.81), (11, 0.95)]"]
      passing_counts_first_dump_only[where s="?s1" and t=1 and f=11 and c="0.95"
        and b="\<lparr>bd_dump_id = ''1_10'', bd_frame_index = 10, bd_confidence = 0.81\<rparr>"
        and ds="[(11, 0.95)]"]
      passing_counts_first_dump_only[where s="?s0" and t=1 and f=12 and c="0.7"]
    by simp
qed

section \<open>Helper facts: the steps of PenghitungRitase\<close>

lemma ritase_proses_deteksi_alt:
  "ritase_proses_deteksi s tracker_id class_id frame_index confidence =
     (if class_id = CLASS_TRUCK_FULL then
        (if siklus_berjalan_punya_ritase s
         then perbarui_kandidat
                ((ambil_truck s tracker_id)\<lparr>total_deteksi_truk_penuh := total_deteksi_truk_penuh s + 1\<rparr>)
                tracker_id frame_index confidence
         else ritase_pertama
                ((ambil_truck s tracker_id)\<lparr>total_deteksi_truk_penuh := total_deteksi_truk_penuh s + 1\<rparr>)
                tracker_id frame_index confidence)
      else if class_id = CLASS_BUCKET_DUMPING then (False, selesaikan_siklus_global (ambil_truck s tracker_id))
      else (False, ambil_truck s tracker_id))"
  by (simp add: ritase_proses_deteksi_def ambil_truck_def Let_def inisialisasi_truck_def)

lemma ambil_truck_lookup:
  "map_of (data_truk (ambil_truck s t)) k =
     (if k = t \<and> \<not> has_key (data_truk s) t
      then Some \<lparr>ritase_count = 0, best_full = None, last_cycle_frame = 0, last_cycle_number = - 1\<rparr>
      else map_of (data_truk s) k)"
  by (simp add: ambil_truck_def inisialisasi_truck_def update_conv')

lemma ambil_truck_has_key: "has_key (data_truk (ambil_truck s t)) t"
  by (simp add: ambil_truck_def inisialisasi_truck_def)

lemma ambil_truck_count [simp]:
  "dapatkan_ritase_count (ambil_truck s t) k = dapatkan_ritase_count s k"
  by (cases k) (auto simp: dapatkan_ritase_count_def has_key_def ambil_truck_def
      inisialisasi_truck_def update_conv' split: option.splits)

lemma ambil_truck_fields [simp]:
  "truk_full_terhitung (ambil_truck s t) = truk_full_terhitung s"
  "ambang_kepercayaan (ambil_truck s t) = ambang_kepercayaan s"
  "total_ritase (ambil_truck s t) = total_ritase s"
  "siklus_aktif (ambil_truck s t) = siklus_aktif s"
  "total_siklus_selesai (ambil_truck s t) = total_siklus_selesai s"
  "total_deteksi_truk_penuh (ambil_truck s t) = total_deteksi_truk_penuh s"
  "siklus_berjalan_punya_ritase (ambil_truck s t) = siklus_berjalan_punya_ritase s"
  "ritase_terbaik_di_siklus (ambil_truck s t) = ritase_terbaik_di_siklus s"
  "nomor_siklus (ambil_truck s t) = nomor_siklus s"
  "total_pencegahan_ganda (ambil_truck s t) = total_pencegahan_ganda s"
  "kandidat_siklus (ambil_truck s t) = kandidat_siklus s"
  by (simp_all add: ambil_truck_def inisialisasi_truck_def)

lemma ritase_count_fields [simp]:
  "dapatkan_ritase_count (s\<lparr>total_deteksi_truk_penuh := a\<rparr>) k = dapatkan_ritase_count s k"
  "dapatkan_ritase_count (s\<lparr>kandidat_siklus := b\<rparr>) k = dapatkan_ritase_count s k"
  "dapatkan_ritase_count (s\<lparr>total_pencegahan_ganda := c\<rparr>) k = dapatkan_ritase_count s k"
  "dapatkan_ritase_count (s\<lparr>ritase_terbaik_di_siklus := d\<rparr>) k = dapatkan_ritase_count s k"
  "dapatkan_ritase_count (s\<lparr>siklus_berjalan_punya_ritase := e\<rparr>) k = dapatkan_ritase_count s k"
  "dapatkan_ritase_count (s\<lparr>siklus_aktif := f\<rparr>) k = dapatkan_ritase_count s k"
  "dapatkan_ritase_count (s\<lparr>truk_full_terhitung := g\<rparr>) k = dapatkan_ritase_count s k"
  "dapatkan_ritase_count (s\<lparr>total_siklus_selesai := h\<rparr>) k = dapatkan_ritase_count s k"
  "dapatkan_ritase_count (s\<lparr>nomor_siklus := i\<rparr>) k = dapatkan_ritase_count s k"
  "dapatkan_ritase_count (s\<lparr>total_ritase := j\<rparr>) (Some t) = dapatkan_ritase_count s (Some t)"
  by (simp_all add: dapatkan_ritase_count_def split: option.splits)

lemma ritase_count_map_entry:
  "dapatkan_ritase_count (s\<lparr>data_truk := AList.map_entry t g (data_truk s)\<rparr>) (Some k) =
     (if k = t then (case map_of (data_truk s) t of None \<Rightarrow> 0 | Some d \<Rightarrow> ritase_count (g d))
      else dapatkan_ritase_count s (Some k))"
  by (simp add: dapatkan_ritase_count_def map_of_map_entry split: option.splits)

lemma perbarui_fst [simp]: "\<not> fst (perbarui_kandidat s t f c)"
  by (simp add: perbarui_kandidat_def Let_def)

lemma perbarui_fields [simp]:
  "total_ritase (snd (perbarui_kandidat s t f c)) = total_ritase s"
  "siklus_berjalan_punya_ritase (snd (perbarui_kandidat s t f c)) = siklus_berjalan_punya_ritase s"
  "truk_full_terhitung (snd (perbarui_kandidat s t f c)) = truk_full_terhitung s"
  "nomor_siklus (snd (perbarui_kandidat s t f c)) = nomor_siklus s"
  "total_siklus_selesai (snd (perbarui_kandidat s t f c)) = total_siklus_selesai s"
  "ambang_kepercayaan (snd (perbarui_kandidat s t f c)) = ambang_kepercayaan s"
  "siklus_aktif (snd (perbarui_kandidat s t f c)) = siklus_aktif s"
  by (simp_all add: perbarui_kandidat_def Let_def split: option.splits)

lemma perbarui_terbaik:
  "ritase_terbaik_di_siklus (snd (perbarui_kandidat s t f c)) =
     (if (case ritase_terbaik_di_siklus s of None \<Rightarrow> True | Some lama \<Rightarrow> rt_confidence lama < c)
      then Some \<lparr>rt_tracker_id = t, rt_frame_index = f, rt_confidence = c,
                 rt_cycle_number = nomor_siklus s\<rparr>
      else ritase_terbaik_di_siklus s)"
  by (simp add: perbarui_kandidat_def Let_def split: option.splits)

lemma perbarui_count_rejected:
  "ritase_terbaik_di_siklus s = Some lama \<Longrightarrow> \<not> rt_confidence lama < c \<Longrightarrow>
   dapatkan_ritase_count (snd (perbarui_kandidat s t f c)) k = dapatkan_ritase_count s k"
  by (simp add: perbarui_kandidat_def Let_def)

lemma perbarui_count_swap:
  assumes "ritase_terbaik_di_siklus s = Some lama" "rt_confidence lama < c" "has_key (data_truk s) t"
  shows "dapatkan_ritase_count (snd (perbarui_kandidat s t f c)) (Some k) =
     (if k = t
      then (if rt_tracker_id lama = t then max 0 (dapatkan_ritase_count s (Some t) - 1)
            else dapatkan_ritase_count s (Some t)) + 1
      else if k = rt_tracker_id lama then max 0 (dapatkan_ritase_count s (Some k) - 1)
      else dapatkan_ritase_count s (Some k))"
  using assms
  by (auto simp: perbarui_kandidat_def Let_def dapatkan_ritase_count_def map_of_map_entry has_key_def
      split: option.splits)

lemma perbarui_count_no_best:
  assumes "ritase_terbaik_di_siklus s = None" "has_key (data_truk s) t"
  shows "dapatkan_ritase_count (snd (perbarui_kandidat s t f c)) (Some k) =
     dapatkan_ritase_count s (Some k) + (if k = t then 1 else 0)"
  using assms
  by (auto simp: perbarui_kandidat_def Let_def dapatkan_ritase_count_def map_of_map_entry has_key_def
      split: option.splits)

lemma pertama_fst:
  "fst (ritase_pertama s t f c) =
     (detection_id t f \<notin> truk_full_terhitung s \<and> ambang_kepercayaan s \<le> c)"
  by (simp add: ritase_pertama_def Let_def)

lemma pertama_rejected:
  "\<not> (detection_id t f \<notin> truk_full_terhitung s \<and> ambang_kepercayaan s \<le> c) \<Longrightarrow>
   ritase_pertama s t f c = (False, s)"
  by (simp add: ritase_pertama_def Let_def)

lemma pertama_fields:
  "total_ritase (snd (ritase_pertama s t f c)) =
     total_ritase s + (if fst (ritase_pertama s t f c) then 1 else 0)"
  "siklus_berjalan_punya_ritase (snd (ritase_pertama s t f c)) =
     (fst (ritase_pertama s t f c) \<or> siklus_berjalan_punya_ritase s)"
  "truk_full_terhitung (snd (ritase_pertama s t f c)) =
     (if fst (ritase_pertama s t f c) then insert (detection_id t f) (truk_full_terhitung s)
      else truk_full_terhitung s)"
  "ritase_terbaik_di_siklus (snd (ritase_pertama s t f c)) =
     (if fst (ritase_pertama s t f c)
      then Some \<lparr>rt_tracker_id = t, rt_frame_index = f, rt_confidence = c,
                 rt_cycle_number = nomor_siklus s\<rparr>
      else ritase_terbaik_di_siklus s)"
  "nomor_siklus (snd (ritase_pertama s t f c)) = nomor_siklus s"
  "total_siklus_selesai (snd (ritase_pertama s t f c)) = total_siklus_selesai s"
  "ambang_kepercayaan (snd (ritase_pertama s t f c)) = ambang_kepercayaan s"
  by (simp_all add: ritase_pertama_def Let_def)

lemma pertama_count:
  assumes "has_key (data_truk s) t"
  shows "dapatkan_ritase_count (snd (ritase_pertama s t f c)) (Some k) =
     dapatkan_ritase_count s (Some k) + (if k = t \<and> fst (ritase_pertama s t f c) then 1 else 0)"
  using assms
  by (auto simp: ritase_pertama_def Let_def dapatkan_ritase_count_def map_of_map_entry has_key_def
      split: option.splits)

section \<open>PenghitungRitase: closing the global cycle\<close>

lemma selesaikan_fields [simp]:
  "total_ritase (ritase_selesaikan_siklus s t) = total_ritase s"
  "siklus_berjalan_punya_ritase (ritase_selesaikan_siklus s t) = siklus_berjalan_punya_ritase s"
  "ritase_terbaik_di_siklus (ritase_selesaikan_siklus s t) = ritase_terbaik_di_siklus s"
  "truk_full_terhitung (ritase_selesaikan_siklus s t) = truk_full_terhitung s"
  "nomor_siklus (ritase_selesaikan_siklus s t) = nomor_siklus s"
  "total_siklus_selesai (ritase_selesaikan_siklus s t) = total_siklus_selesai s"
  "ambang_kepercayaan (ritase_selesaikan_siklus s t) = ambang_kepercayaan s"
  "kandidat_siklus (ritase_selesaikan_siklus s t) = kandidat_siklus s"
  by (simp_all add: ritase_selesaikan_siklus_def Let_def)

lemma selesaikan_count [simp]:
  "dapatkan_ritase_count (ritase_selesaikan_siklus s t) k = dapatkan_ritase_count s k"
  by (cases k)
     (auto simp: ritase_selesaikan_siklus_def Let_def dapatkan_ritase_count_def map_of_map_entry
       split: option.splits)

lemma fold_selesaikan_fields [simp]:
  "total_ritase (fold (\<lambda>t st. ritase_selesaikan_siklus st t) ts s) = total_ritase s"
  "siklus_berjalan_punya_ritase (fold (\<lambda>t st. ritase_selesaikan_siklus st t) ts s) =
     siklus_berjalan_punya_ritase s"
  "ritase_terbaik_di_siklus (fold (\<lambda>t st. ritase_selesaikan_siklus st t) ts s) =
     ritase_terbaik_di_siklus s"
  "truk_full_terhitung (fold (\<lambda>t st. ritase_selesaikan_siklus st t) ts s) = truk_full_terhitung s"
  "nomor_siklus (fold (\<lambda>t st. ritase_selesaikan_siklus st t) ts s) = nomor_siklus s"
  "total_siklus_selesai (fold (\<lambda>t st. ritase_selesaikan_siklus st t) ts s) = total_siklus_selesai s"
  "ambang_kepercayaan (fold (\<lambda>t st. ritase_selesaikan_siklus st t) ts s) = ambang_kepercayaan s"
  "kandidat_siklus (fold (\<lambda>t st. ritase_selesaikan_siklus st t) ts s) = kandidat_siklus s"
  by (induction ts arbitrary: s; simp)+

lemma fold_selesaikan_count [simp]:
  "dapatkan_ritase_count (fold (\<lambda>t st. ritase_selesaikan_siklus st t) ts s) k =
     dapatkan_ritase_count s k"
  by (induction ts arbitrary: s) simp_all

lemma aktif_iff: "(truk_dengan_siklus_aktif s \<noteq> []) = list_ex (\<lambda>p. snd p \<noteq> []) (siklus_aktif s)"
  by (force simp: truk_dengan_siklus_aktif_def list_ex_iff filter_empty_conv)

lemma global_count [simp]:
  "dapatkan_ritase_count (selesaikan_siklus_global s) (Some k) = dapatkan_ritase_count s (Some k)"
  by (simp add: selesaikan_siklus_global_def Let_def)

lemma global_fields [simp]:
  "total_ritase (selesaikan_siklus_global s) = total_ritase s"
  "truk_full_terhitung (selesaikan_siklus_global s) = truk_full_terhitung s"
  "ambang_kepercayaan (selesaikan_siklus_global s) = ambang_kepercayaan s"
  by (simp_all add: selesaikan_siklus_global_def Let_def)

lemma global_closes:
  assumes "list_ex (\<lambda>p. snd p \<noteq> []) (siklus_aktif s) \<or> siklus_berjalan_punya_ritase s"
  shows "nomor_siklus (selesaikan_siklus_global s) = nomor_siklus s + 1"
    "total_siklus_selesai (selesaikan_siklus_global s) = total_siklus_selesai s + 1"
    "\<not> siklus_berjalan_punya_ritase (selesaikan_siklus_global s)"
    "ritase_terbaik_di_siklus (selesaikan_siklus_global s) = None"
    "kandidat_siklus (selesaikan_siklus_global s) = []"
  using assms unfolding aktif_iff[symmetric]
  by (auto simp: selesaikan_siklus_global_def Let_def)

lemma global_idle:
  assumes "\<not> list_ex (\<lambda>p. snd p \<noteq> []) (siklus_aktif s)" "\<not> siklus_berjalan_punya_ritase s"
  shows "selesaikan_siklus_global s = s"
proof -
  from assms(1) have "truk_dengan_siklus_aktif s = []"
    using aktif_iff[of s] by simp
  with assms(2) show ?thesis by (simp add: selesaikan_siklus_global_def Let_def)
qed

lemma contoh_ritase_1:
  "ritase_proses_deteksi (PenghitungRitase_init 0.9) 100 6 50 0.95 =
    (True,
     \<lparr>data_truk = [(100, \<lparr>ritase_count = 1,
                          best_full = Some \<lparr>bf_full_truck_id = ''100_50'', bf_frame_index = 50,
                                            bf_confidence = 0.95, bf_cycle_number = 0\<rparr>,
                          last_cycle_frame = 0, last_cycle_number = - 1\<rparr>)],
      truk_full_terhitung = {''100_50''}, ambang_kepercayaan = 0.9, total_ritase = 1,
      siklus_aktif = [(100, [\<lparr>fd_full_truck_id = ''100_50'', fd_frame_index = 50, fd_confidence = 0.95\<rparr>])],
      total_siklus_selesai = 0, total_deteksi_truk_penuh = 1,
      siklus_berjalan_punya_ritase = True,
      ritase_terbaik_di_siklus = Some \<lparr>rt_tracker_id = 100, rt_frame_index = 50,
                                        rt_confidence = 0.95, rt_cycle_number = 0\<rparr>,
      nomor_siklus = 0, total_pencegahan_ganda = 0,
      kandidat_siklus = [\<lparr>ki_tracker_id = 100, ki_frame_index = 50, ki_confidence = 0.95,
                          ki_status = ''accepted_as_primary''\<rparr>]\<rparr>)"
  by (simp add: ritase_proses_deteksi_def ritase_pertama_def inisialisasi_truck_def
      PenghitungRitase_init_def CLASS_TRUCK_FULL_def CLASS_BUCKET_DUMPING_def has_key_def
      detection_id_def str_int_def digits_of.simps defaultdict_append_def Let_def)

text \<open>
  Claim C5. When some truck has a non-empty list in \<^verbatim>\<open>siklus_aktif\<close> or the running
  cycle has a credited ritase, \<^verbatim>\<open>_selesaikan_siklus_global\<close> adds exactly 1 to
  \<^verbatim>\<open>nomor_siklus\<close> and to \<^verbatim>\<open>total_siklus_selesai\<close>, clears the flag and the best
  ritase of the cycle and empties the candidate trail. When neither holds it returns the state
  unchanged. In both cases \<^verbatim>\<open>total_ritase\<close> and every truck's count stay as they were.
\<close>

theorem selesaikan_siklus_global_effect:
  "(list_ex (\<lambda>p. snd p \<noteq> []) (siklus_aktif s) \<or> siklus_berjalan_punya_ritase s \<longrightarrow>
      nomor_siklus (selesaikan_siklus_global s) = nomor_siklus s + 1
      \<and> total_siklus_selesai (selesaikan_siklus_global s) = total_siklus_selesai s + 1
      \<and> \<not> siklus_berjalan_punya_ritase (selesaikan_siklus_global s)
      \<and> ritase_terbaik_di_siklus (selesaikan_siklus_global s) = None
      \<and> kandidat_siklus (selesaikan_siklus_global s) = [])
   \<and> (\<not> list_ex (\<lambda>p. snd p \<noteq> []) (siklus_aktif s) \<and> \<not> siklus_berjalan_punya_ritase s \<longrightarrow>
      selesaikan_siklus_global s = s)
   \<and> total_ritase (selesaikan_siklus_global s) = total_ritase s
   \<and> dapatkan_ritase_count (selesaikan_siklus_global s) k = dapatkan_ritase_count s k"
proof -
  have "dapatkan_ritase_count (selesaikan_siklus_global s) k = dapatkan_ritase_count s k"
  proof (cases k)
    case None
    then show ?thesis by (simp add: dapatkan_ritase_count_def)
  next
    case (Some a)
    then show ?thesis by simp
  qed
  then show ?thesis
    using global_closes[of s] global_idle[of s] by auto
qed

theorem selesaikan_siklus_global_effect_witness:
  "siklus_berjalan_punya_ritase (snd (ritase_proses_deteksi (PenghitungRitase_init 0.9) 100 6 50 0.95))
   \<and> nomor_siklus (selesaikan_siklus_global
        (snd (ritase_proses_deteksi (PenghitungRitase_init 0.9) 100 6 50 0.95))) = 1
   \<and> total_siklus_selesai (selesaikan_siklus_global
        (snd (ritase_proses_deteksi (PenghitungRitase_init 0.9) 100 6 50 0.95))) = 1
   \<and> \<not> list_ex (\<lambda>p. snd p \<noteq> []) (siklus_aktif (PenghitungRitase_init 0.9))
   \<and> \<not> siklus_berjalan_punya_ritase (PenghitungRitase_init 0.9)
   \<and> selesaikan_siklus_global (PenghitungRitase_init 0.9) = PenghitungRitase_init 0.9"
proof -
  let ?s = "snd (ritase_proses_deteksi (PenghitungRitase_init 0.9) 100 6 50 0.95)"
  have a: "siklus_berjalan_punya_ritase ?s" "nomor_siklus ?s = 0" "total_siklus_selesai ?s = 0"
    by (subst contoh_ritase_1, simp)+
  have b: "\<not> list_ex (\<lambda>p. snd p \<noteq> []) (siklus_aktif (PenghitungRitase_init 0.9))"
    "\<not> siklus_berjalan_punya_ritase (PenghitungRitase_init 0.9)"
    by (simp_all add: PenghitungRitase_init_def)
  show ?thesis
    using a b selesaikan_siklus_global_effect[where s="?s" and k=None]
      selesaikan_siklus_global_effect[where s="PenghitungRitase_init 0.9" and k=None]
    by simp
qed

section \<open>Helper facts: whole calls of PenghitungRitase.proses_deteksi\<close>

lemma step_fst:
  "fst (ritase_proses_deteksi s t cl f c) =
     (cl = CLASS_TRUCK_FULL \<and> \<not> siklus_berjalan_punya_ritase s
      \<and> detection_id t f \<notin> truk_full_terhitung s \<and> ambang_kepercayaan s \<le> c)"
  by (simp add: ritase_proses_deteksi_alt pertama_fst)

lemma step_total:
  "total_ritase (snd (ritase_proses_deteksi s t cl f c)) =
     total_ritase s + (if fst (ritase_proses_deteksi s t cl f c) then 1 else 0)"
  by (simp add: ritase_proses_deteksi_alt pertama_fields)

lemma step_seen:
  "truk_full_terhitung (snd (ritase_proses_deteksi s t cl f c)) =
     (if fst (ritase_proses_deteksi s t cl f c)
      then insert (detection_id t f) (truk_full_terhitung s) else truk_full_terhitung s)"
  by (simp add: ritase_proses_deteksi_alt pertama_fields)

lemma step_ambang:
  "ambang_kepercayaan (snd (ritase_proses_deteksi s t cl f c)) = ambang_kepercayaan s"
  by (simp add: ritase_proses_deteksi_alt pertama_fields)

lemma step_has:
  "cl \<noteq> CLASS_BUCKET_DUMPING \<Longrightarrow>
   siklus_berjalan_punya_ritase (snd (ritase_proses_deteksi s t cl f c)) =
     (siklus_berjalan_punya_ritase s \<or> fst (ritase_proses_deteksi s t cl f c))"
  by (auto simp: ritase_proses_deteksi_alt pertama_fields)

lemma step_count_no_credit:
  assumes "\<not> siklus_berjalan_punya_ritase s \<or> cl \<noteq> CLASS_TRUCK_FULL"
  shows "dapatkan_ritase_count (snd (ritase_proses_deteksi s t cl f c)) (Some k) =
     dapatkan_ritase_count s (Some k) +
       (if k = t \<and> fst (ritase_proses_deteksi s t cl f c) then 1 else 0)"
  using assms
  by (auto simp: ritase_proses_deteksi_alt pertama_count ambil_truck_has_key pertama_fst)

lemma step_count_rejected:
  assumes "siklus_berjalan_punya_ritase s" "ritase_terbaik_di_siklus s = Some lama"
    "\<not> rt_confidence lama < c"
  shows "dapatkan_ritase_count (snd (ritase_proses_deteksi s t CLASS_TRUCK_FULL f c)) k =
     dapatkan_ritase_count s k"
  using assms by (simp add: ritase_proses_deteksi_alt perbarui_count_rejected)

lemma step_count_swap:
  assumes "siklus_berjalan_punya_ritase s" "ritase_terbaik_di_siklus s = Some lama"
    "rt_confidence lama < c"
  shows "dapatkan_ritase_count (snd (ritase_proses_deteksi s t CLASS_TRUCK_FULL f c)) (Some k) =
     (if k = t
      then (if rt_tracker_id lama = t then max 0 (dapatkan_ritase_count s (Some t) - 1)
            else dapatkan_ritase_count s (Some t)) + 1
      else if k = rt_tracker_id lama then max 0 (dapatkan_ritase_count s (Some k) - 1)
      else dapatkan_ritase_count s (Some k))"
  using assms
  by (simp add: ritase_proses_deteksi_alt perbarui_count_swap ambil_truck_has_key)

lemma step_count_no_best:
  assumes "siklus_berjalan_punya_ritase s" "ritase_terbaik_di_siklus s = None"
  shows "dapatkan_ritase_count (snd (ritase_proses_deteksi s t CLASS_TRUCK_FULL f c)) (Some k) =
     dapatkan_ritase_count s (Some k) + (if k = t then 1 else 0)"
  using assms
  by (simp add: ritase_proses_deteksi_alt perbarui_count_no_best ambil_truck_has_key)

lemma step_terbaik:
  "cl \<noteq> CLASS_BUCKET_DUMPING \<Longrightarrow>
   ritase_terbaik_di_siklus (snd (ritase_proses_deteksi s t cl f c)) =
     (if cl = CLASS_TRUCK_FULL \<and>
         (if siklus_berjalan_punya_ritase s
          then (case ritase_terbaik_di_siklus s of None \<Rightarrow> True | Some lama \<Rightarrow> rt_confidence lama < c)
          else fst (ritase_proses_deteksi s t cl f c))
      then Some \<lparr>rt_tracker_id = t, rt_frame_index = f, rt_confidence = c,
                 rt_cycle_number = nomor_siklus s\<rparr>
      else ritase_terbaik_di_siklus s)"
  by (auto simp: ritase_proses_deteksi_alt pertama_fields perbarui_terbaik pertama_fst)

lemma feed_has_ritase:
  "siklus_berjalan_punya_ritase s \<Longrightarrow> list_all (\<lambda>d. fst (snd d) \<noteq> CLASS_BUCKET_DUMPING) ds \<Longrightarrow>
   fst (feed_ritase s ds) = map (\<lambda>_. False) ds
   \<and> total_ritase (snd (feed_ritase s ds)) = total_ritase s
   \<and> siklus_berjalan_punya_ritase (snd (feed_ritase s ds))"
proof (induction ds arbitrary: s)
  case Nil
  then show ?case by simp
next
  case (Cons d ds)
  obtain t cl f c where d: "d = (t, cl, f, c)" by (cases d)
  let ?r = "ritase_proses_deteksi s t cl f c"
  from Cons.prems d have cl: "cl \<noteq> CLASS_BUCKET_DUMPING" by simp
  have nf: "\<not> fst ?r" using Cons.prems(1) by (simp add: step_fst)
  have h: "siklus_berjalan_punya_ritase (snd ?r)"
    using Cons.prems(1) cl by (simp add: step_has)
  have tt: "total_ritase (snd ?r) = total_ritase s" using nf by (simp add: step_total)
  from Cons.IH[OF h] Cons.prems(2) d nf tt show ?case
    by (simp add: case_prod_beta)
qed

section \<open>PenghitungRitase: the light reset\<close>

lemma reset_counters_lookup:
  "map_of (data_truk (reset_counters s)) k =
     map_option (\<lambda>d. d\<lparr>ritase_count := 0, best_full := None\<rparr>) (map_of (data_truk s) k)"
proof -
  have "map_of (map (\<lambda>(t, e). (t, e\<lparr>ritase_count := 0, best_full := None\<rparr>)) d) k =
        map_option (\<lambda>e. e\<lparr>ritase_count := 0, best_full := None\<rparr>) (map_of d k)"
    for d :: "(int, TruckData) dict"
    by (induction d) auto
  then show ?thesis by (simp add: reset_counters_def)
qed

lemma reset_counters_fields:
  "total_ritase (reset_counters s) = 0"
  "nomor_siklus (reset_counters s) = nomor_siklus s"
  "total_siklus_selesai (reset_counters s) = total_siklus_selesai s"
  "truk_full_terhitung (reset_counters s) = truk_full_terhitung s"
  "siklus_berjalan_punya_ritase (reset_counters s) = siklus_berjalan_punya_ritase s"
  "ritase_terbaik_di_siklus (reset_counters s) = ritase_terbaik_di_siklus s"
  "siklus_aktif (reset_counters s) = siklus_aktif s"
  "ambang_kepercayaan (reset_counters s) = ambang_kepercayaan s"
  by (simp_all add: reset_counters_def)

lemma reset_counters_count: "dapatkan_ritase_count (reset_counters s) k = 0"
proof (cases k)
  case None
  then show ?thesis by (simp add: dapatkan_ritase_count_def reset_counters_fields)
next
  case (Some t)
  then show ?thesis
    by (auto simp: dapatkan_ritase_count_def reset_counters_lookup split: option.splits)
qed

text \<open>
  Claim C9. \<^verbatim>\<open>PenghitungRitase.reset_counters\<close> sets \<^verbatim>\<open>total_ritase\<close> to 0 and leaves
  every entry of \<^verbatim>\<open>data_truk\<close> with count 0 and no best detection (the keys stay);
  \<^verbatim>\<open>nomor_siklus\<close>, \<^verbatim>\<open>total_siklus_selesai\<close> and the set of counted identities are
  unchanged. \<^verbatim>\<open>PenghitungPassing.reset_all_counters\<close>, in contrast, empties its set of
  counted identities.
\<close>

theorem reset_counters_light:
  "total_ritase (reset_counters s) = 0
   \<and> list_all (\<lambda>p. ritase_count (snd p) = 0 \<and> best_full (snd p) = None)
        (data_truk (reset_counters s))
   \<and> map fst (data_truk (reset_counters s)) = map fst (data_truk s)
   \<and> dapatkan_ritase_count (reset_counters s) k = 0
   \<and> nomor_siklus (reset_counters s) = nomor_siklus s
   \<and> total_siklus_selesai (reset_counters s) = total_siklus_selesai s
   \<and> truk_full_terhitung (reset_counters s) = truk_full_terhitung s
   \<and> counted_dumps (reset_all_counters p) = {}"
proof -
  have a: "list_all (\<lambda>p. ritase_count (snd p) = 0 \<and> best_full (snd p) = None)
        (data_truk (reset_counters s))"
    by (simp add: reset_counters_def list_all_iff case_prod_beta)
  have b: "map fst (data_truk (reset_counters s)) = map fst (data_truk s)"
    by (simp add: reset_counters_def comp_def case_prod_beta)
  have c: "counted_dumps (reset_all_counters p) = {}"
    by (simp add: reset_all_counters_def)
  from a b c show ?thesis
    by (simp add: reset_counters_fields reset_counters_count)
qed

section \<open>PenghitungRitase: the end-to-end scenario\<close>

text \<open>
  Claim C6. On a fresh \<^verbatim>\<open>PenghitungRitase\<close> with threshold 0.9: truck 100's
  \<^verbatim>\<open>truck_full\<close> at frame 50 with confidence 0.95 returns \<^verbatim>\<open>True\<close> and the total is 1;
  bucket 200's \<^verbatim>\<open>bucket_dumping\<close> at frame 60 then returns \<^verbatim>\<open>False\<close>, the cycle number
  is 1 and the cycle has no ritase; truck 100's \<^verbatim>\<open>truck_full\<close> at frame 70 with
  confidence 0.92 then returns \<^verbatim>\<open>True\<close> and the total is 2.
\<close>

theorem ritase_end_to_end:
  "fst (ritase_proses_deteksi (PenghitungRitase_init 0.9) 100 CLASS_TRUCK_FULL 50 0.95)
   \<and> total_ritase (snd (ritase_proses_deteksi (PenghitungRitase_init 0.9) 100 CLASS_TRUCK_FULL 50 0.95)) = 1
   \<and> fst (feed_ritase (PenghitungRitase_init 0.9)
        [(100, CLASS_TRUCK_FULL, 50, 0.95), (200, CLASS_BUCKET_DUMPING, 60, 0.9)]) = [True, False]
   \<and> nomor_siklus (snd (feed_ritase (PenghitungRitase_init 0.9)
        [(100, CLASS_TRUCK_FULL, 50, 0.95), (200, CLASS_BUCKET_DUMPING, 60, 0.9)])) = 1
   \<and> \<not> siklus_berjalan_punya_ritase (snd (feed_ritase (PenghitungRitase_init 0.9)
        [(100, CLASS_TRUCK_FULL, 50, 0.95), (200, CLASS_BUCKET_DUMPING, 60, 0.9)]))
   \<and> fst (feed_ritase (PenghitungRitase_init 0.9)
        [(100, CLASS_TRUCK_FULL, 50, 0.95), (200, CLASS_BUCKET_DUMPING, 60, 0.9),
         (100, CLASS_TRUCK_FULL, 70, 0.92)]) = [True, False, True]
   \<and> total_ritase (snd (feed_ritase (PenghitungRitase_init 0.9)
        [(100, CLASS_TRUCK_FULL, 50, 0.95), (200, CLASS_BUCKET_DUMPING, 60, 0.9),
         (100, CLASS_TRUCK_FULL, 70, 0.92)])) = 2"
  by (simp add: ritase_proses_deteksi_def ritase_pertama_def perbarui_kandidat_def
      selesaikan_siklus_global_def truk_dengan_siklus_aktif_def ritase_selesaikan_siklus_def
      inisialisasi_truck_def PenghitungRitase_init_def CLASS_TRUCK_FULL_def CLASS_BUCKET_DUMPING_def
      has_key_def detection_id_def str_int_def digits_of.simps defaultdict_append_def Let_def)

section \<open>PenghitungRitase: a reset inside a cycle\<close>

lemma contoh_reset_lalu_tukar:
  "dapatkan_ritase_count
     (snd (ritase_proses_deteksi
        (reset_counters (snd (ritase_proses_deteksi (PenghitungRitase_init 0.9) 1 CLASS_TRUCK_FULL 10 0.95)))
        2 CLASS_TRUCK_FULL 11 0.96)) (Some 2) = 1"
  by (simp add: ritase_proses_deteksi_def ritase_pertama_def perbarui_kandidat_def reset_counters_def
      inisialisasi_truck_def PenghitungRitase_init_def CLASS_TRUCK_FULL_def CLASS_BUCKET_DUMPING_def
      has_key_def detection_id_def str_int_def digits_of.simps defaultdict_append_def Let_def
      dapatkan_ritase_count_def)

text \<open>
  Claim C10. \<^verbatim>\<open>PenghitungRitase.reset_counters\<close> leaves
  \<^verbatim>\<open>siklus_berjalan_punya_ritase\<close> and \<^verbatim>\<open>ritase_terbaik_di_siklus\<close> as they were.
  So after a reset inside a cycle that already has a ritase, every detection of a run with
  no \<^verbatim>\<open>bucket_dumping\<close> in it returns \<^verbatim>\<open>False\<close>, \<^verbatim>\<open>total_ritase\<close> stays 0
  and the cycle keeps its flag; a \<^verbatim>\<open>bucket_dumping\<close> detection clears the flag. A swap
  of the best candidate still moves a count in that situation: after truck 1 is credited and
  the counters are reset, a better detection of truck 2 gives truck 2 the count 1.
\<close>

theorem reset_counters_keeps_cycle_flags:
  "siklus_berjalan_punya_ritase (reset_counters s) = siklus_berjalan_punya_ritase s
   \<and> ritase_terbaik_di_siklus (reset_counters s) = ritase_terbaik_di_siklus s
   \<and> (siklus_berjalan_punya_ritase s \<and> list_all (\<lambda>d. fst (snd d) \<noteq> CLASS_BUCKET_DUMPING) ds \<longrightarrow>
        fst (feed_ritase (reset_counters s) ds) = map (\<lambda>_. False) ds
        \<and> total_ritase (snd (feed_ritase (reset_counters s) ds)) = 0
        \<and> siklus_berjalan_punya_ritase (snd (feed_ritase (reset_counters s) ds)))
   \<and> (siklus_berjalan_punya_ritase s \<longrightarrow>
        \<not> siklus_berjalan_punya_ritase
            (snd (ritase_proses_deteksi (reset_counters s) tracker_id CLASS_BUCKET_DUMPING
                    frame_index confidence)))
   \<and> dapatkan_ritase_count
       (snd (ritase_proses_deteksi
          (reset_counters (snd (ritase_proses_deteksi (PenghitungRitase_init 0.9) 1 CLASS_TRUCK_FULL 10 0.95)))
          2 CLASS_TRUCK_FULL 11 0.96)) (Some 2) = 1"
proof -
  have a: "fst (feed_ritase (reset_counters s) ds) = map (\<lambda>_. False) ds
        \<and> total_ritase (snd (feed_ritase (reset_counters s) ds)) = 0
        \<and> siklus_berjalan_punya_ritase (snd (feed_ritase (reset_counters s) ds))"
    if "siklus_berjalan_punya_ritase s" "list_all (\<lambda>d. fst (snd d) \<noteq> CLASS_BUCKET_DUMPING) ds"
    using feed_has_ritase[of "reset_counters s" ds] that by (simp add: reset_counters_fields)
  have b: "\<not> siklus_berjalan_punya_ritase
            (snd (ritase_proses_deteksi (reset_counters s) tracker_id CLASS_BUCKET_DUMPING
                    frame_index confidence))"
    if "siklus_berjalan_punya_ritase s"
    using that global_closes(3)[of "ambil_truck (reset_counters s) tracker_id"]
    by (simp add: ritase_proses_deteksi_alt reset_counters_fields CLASS_BUCKET_DUMPING_def
        CLASS_TRUCK_FULL_def)
  from a b contoh_reset_lalu_tukar show ?thesis
    by (simp add: reset_counters_fields)
qed

theorem reset_counters_keeps_cycle_flags_witness:
  "siklus_berjalan_punya_ritase (snd (ritase_proses_deteksi (PenghitungRitase_init 0.9) 1 6 10 0.95))
   \<and> list_all (\<lambda>d. fst (snd d) \<noteq> CLASS_BUCKET_DUMPING) [(2::int, 6::int, 11::int, 0.96::real), (1, 6, 12, 0.99)]
   \<and> fst (feed_ritase
        (reset_counters (snd (ritase_proses_deteksi (PenghitungRitase_init 0.9) 1 6 10 0.95)))
        [(2, 6, 11, 0.96), (1, 6, 12, 0.99)]) = [False, False]
   \<and> total_ritase (snd (feed_ritase
        (reset_counters (snd (ritase_proses_deteksi (PenghitungRitase_init 0.9) 1 6 10 0.95)))
        [(2, 6, 11, 0.96), (1, 6, 12, 0.99)])) = 0"
proof -
  let ?s = "snd (ritase_proses_deteksi (PenghitungRitase_init 0.9) 1 6 10 0.95)"
  have "fst (ritase_proses_deteksi (PenghitungRitase_init 0.9) 1 6 10 0.95)"
    by (simp add: step_fst CLASS_TRUCK_FULL_def PenghitungRitase_init_def)
  then have a: "siklus_berjalan_punya_ritase ?s"
    by (simp add: step_has CLASS_BUCKET_DUMPING_def)
  have b: "list_all (\<lambda>d. fst (snd d) \<noteq> CLASS_BUCKET_DUMPING) [(2::int, 6::int, 11::int, 0.96::real), (1, 6, 12, 0.99)]"
    by (simp add: CLASS_BUCKET_DUMPING_def)
  show ?thesis
    using a b reset_counters_keeps_cycle_flags[where s="?s" and ds="[(2, 6, 11, 0.96), (1, 6, 12, 0.99)]"]
    by simp
qed

section \<open>PenghitungRitase: one credited ritase per global cycle\<close>

lemma nonneg_counts:
  "list_all (\<lambda>p. 0 \<le> ritase_count (snd p)) (data_truk s) \<Longrightarrow> 0 \<le> dapatkan_ritase_count s (Some k)"
  by (auto simp: dapatkan_ritase_count_def list_all_iff split: option.splits dest!: map_of_SomeD)

lemma owner_credit_step:
  assumes nn: "\<And>k. 0 \<le> dapatkan_ritase_count s0 (Some k)"
    and inv: "owner_credit s0 s"
    and cl: "cl \<noteq> CLASS_BUCKET_DUMPING"
  shows "owner_credit s0 (snd (ritase_proses_deteksi s t cl f c))"
proof (cases "siklus_berjalan_punya_ritase s")
  case False
  with inv have eq: "\<And>k. dapatkan_ritase_count s (Some k) = dapatkan_ritase_count s0 (Some k)"
    and tot: "total_ritase s = total_ritase s0"
    by (simp_all add: owner_credit_def)
  show ?thesis
  proof (cases "fst (ritase_proses_deteksi s t cl f c)")
    case True
    then have "cl = CLASS_TRUCK_FULL" by (simp add: step_fst)
    with True False eq tot cl show ?thesis
      by (simp add: owner_credit_def step_has step_total step_terbaik step_count_no_credit)
  next
    case nf: False
    with False eq tot cl show ?thesis
      by (simp add: owner_credit_def step_has step_total step_terbaik step_count_no_credit)
  qed
next
  case True
  with inv obtain b where b: "ritase_terbaik_di_siklus s = Some b"
    and eq: "\<And>k. dapatkan_ritase_count s (Some k) =
               dapatkan_ritase_count s0 (Some k) + (if k = rt_tracker_id b then 1 else 0)"
    and tot: "total_ritase s = total_ritase s0 + 1"
    by (auto simp: owner_credit_def)
  have nf: "\<not> fst (ritase_proses_deteksi s t cl f c)" using True by (simp add: step_fst)
  show ?thesis
  proof (cases "cl = CLASS_TRUCK_FULL")
    case False
    then show ?thesis
      using True b eq tot cl nf
      by (simp add: owner_credit_def step_has step_total step_terbaik step_count_no_credit)
  next
    case full: True
    show ?thesis
    proof (cases "rt_confidence b < c")
      case False
      then show ?thesis
        using True b eq tot cl nf full
        by (simp add: owner_credit_def step_has step_total step_terbaik step_count_rejected)
    next
      case swap: True
      have "dapatkan_ritase_count (snd (ritase_proses_deteksi s t CLASS_TRUCK_FULL f c)) (Some k) =
              dapatkan_ritase_count s0 (Some k) + (if k = t then 1 else 0)" for k
        using nn[of k] nn[of t] nn[of "rt_tracker_id b"] eq[of k] eq[of t] eq[of "rt_tracker_id b"]
        by (auto simp: step_count_swap[OF True b swap])
      then show ?thesis
        using True b tot cl nf full swap
        by (simp add: owner_credit_def step_has step_total step_terbaik)
    qed
  qed
qed

lemma owner_credit_feed:
  assumes nn: "\<And>k. 0 \<le> dapatkan_ritase_count s0 (Some k)"
  shows "owner_credit s0 s \<Longrightarrow> list_all (\<lambda>d. fst (snd d) \<noteq> CLASS_BUCKET_DUMPING) ds \<Longrightarrow>
         owner_credit s0 (snd (feed_ritase s ds))"
proof (induction ds arbitrary: s)
  case Nil
  then show ?case by simp
next
  case (Cons d ds)
  obtain t cl f c where d: "d = (t, cl, f, c)" by (cases d)
  from Cons.prems d have "owner_credit s0 (snd (ritase_proses_deteksi s t cl f c))"
    by (intro owner_credit_step nn) simp_all
  from Cons.IH[OF this] Cons.prems(2) d show ?case
    by (simp add: case_prod_beta)
qed

lemma feed_true_count:
  "list_all (\<lambda>d. fst (snd d) \<noteq> CLASS_BUCKET_DUMPING) ds \<Longrightarrow>
   total_ritase (snd (feed_ritase s ds)) = total_ritase s + int (count_list (fst (feed_ritase s ds)) True)"
proof (induction ds arbitrary: s)
  case Nil
  then show ?case by simp
next
  case (Cons d ds)
  obtain t cl f c where d: "d = (t, cl, f, c)" by (cases d)
  from Cons.IH[of "snd (ritase_proses_deteksi s t cl f c)"] Cons.prems d show ?case
    by (simp add: case_prod_beta step_total)
qed

lemma distinct_step:
  "distinct (map fst (data_truk s)) \<Longrightarrow>
   distinct (map fst (data_truk (snd (ritase_proses_deteksi s t cl f c))))"
proof -
  assume d: "distinct (map fst (data_truk s))"
  have a: "distinct (map fst (data_truk (ambil_truck s t)))"
    using d by (simp add: ambil_truck_def inisialisasi_truck_def distinct_update)
  have p: "distinct (map fst (data_truk (snd (perbarui_kandidat x t f c))))"
    if "distinct (map fst (data_truk x))" for x
    using that by (auto simp: perbarui_kandidat_def Let_def distinct_map_entry split: option.splits)
  have q: "distinct (map fst (data_truk (snd (ritase_pertama x t f c))))"
    if "distinct (map fst (data_truk x))" for x
    using that by (auto simp: ritase_pertama_def Let_def distinct_map_entry)
  have e: "distinct (map fst (data_truk (ritase_selesaikan_siklus x u)))"
    if "distinct (map fst (data_truk x))" for x u
    using that by (auto simp: ritase_selesaikan_siklus_def Let_def distinct_map_entry)
  have g: "distinct (map fst (data_truk (fold (\<lambda>u st. ritase_selesaikan_siklus st u) us x)))"
    if "distinct (map fst (data_truk x))" for x us
    using that by (induction us arbitrary: x) (simp_all add: e)
  have h: "distinct (map fst (data_truk (selesaikan_siklus_global x)))"
    if "distinct (map fst (data_truk x))" for x
    using g[OF that, of "truk_dengan_siklus_aktif x"] that
    by (simp add: selesaikan_siklus_global_def Let_def)
  show ?thesis
    using a by (auto simp: ritase_proses_deteksi_alt intro!: p q h)
qed

lemma distinct_feed:
  "distinct (map fst (data_truk s)) \<Longrightarrow> distinct (map fst (data_truk (snd (feed_ritase s ds))))"
proof (induction ds arbitrary: s)
  case Nil
  then show ?case by simp
next
  case (Cons d ds)
  obtain t cl f c where d: "d = (t, cl, f, c)" by (cases d)
  from Cons.IH[OF distinct_step[OF Cons.prems, of t cl f c]] d show ?case
    by (simp add: case_prod_beta)
qed

lemma cycle_credit_sum:
  assumes "distinct (map fst (data_truk s))"
  shows "cycle_credit s0 s =
     (\<Sum>k\<in>set (map fst (data_truk s)).
         dapatkan_ritase_count s (Some k) - dapatkan_ritase_count s0 (Some k))"
proof -
  let ?h = "\<lambda>k. dapatkan_ritase_count s (Some k) - dapatkan_ritase_count s0 (Some k)"
  have *: "ritase_count (snd p) = dapatkan_ritase_count s (Some (fst p))" if "p \<in> set (data_truk s)" for p
    using map_of_is_SomeI[OF assms, of "fst p" "snd p"] that
    by (simp add: dapatkan_ritase_count_def)
  have m: "map (\<lambda>p. ritase_count (snd p) - dapatkan_ritase_count s0 (Some (fst p))) (data_truk s) =
             map (\<lambda>p. ?h (fst p)) (data_truk s)"
    by (rule map_cong[OF refl]) (simp add: *)
  have "cycle_credit s0 s = sum_list (map (\<lambda>p. ?h (fst p)) (data_truk s))"
    by (simp only: cycle_credit_def m)
  also have "\<dots> = sum_list (map ?h (map fst (data_truk s)))"
    by (simp add: comp_def)
  also have "\<dots> = sum ?h (set (map fst (data_truk s)))"
    by (rule sum_list_distinct_conv_sum_set[OF assms])
  finally show ?thesis .
qed

lemma owner_credit_sum:
  assumes nn: "\<And>k. 0 \<le> dapatkan_ritase_count s0 (Some k)"
    and inv: "owner_credit s0 s"
    and dis: "distinct (map fst (data_truk s))"
  shows "cycle_credit s0 s = (if siklus_berjalan_punya_ritase s then 1 else 0)"
proof (cases "siklus_berjalan_punya_ritase s")
  case False
  with inv show ?thesis by (simp add: owner_credit_def cycle_credit_sum[OF dis])
next
  case True
  with inv have "(\<exists>b. ritase_terbaik_di_siklus s = Some b
              \<and> (\<forall>k. dapatkan_ritase_count s (Some k) =
                     dapatkan_ritase_count s0 (Some k) + (if k = rt_tracker_id b then 1 else 0)))
           \<and> total_ritase s = total_ritase s0 + 1"
    by (simp only: owner_credit_def if_True)
  then obtain b :: RitaseTerbaik where
    eq: "\<And>k. dapatkan_ritase_count s (Some k) =
               dapatkan_ritase_count s0 (Some k) + (if k = rt_tracker_id b then 1 else 0)"
    by blast
  have "0 < dapatkan_ritase_count s (Some (rt_tracker_id b))"
    using nn[of "rt_tracker_id b"] eq[of "rt_tracker_id b"] by simp
  then have mem: "rt_tracker_id b \<in> set (map fst (data_truk s))"
    by (auto simp: dapatkan_ritase_count_def split: option.splits dest!: map_of_SomeD intro: rev_image_eqI)
  have "cycle_credit s0 s = (\<Sum>k\<in>set (map fst (data_truk s)). if k = rt_tracker_id b then 1 else 0)"
    by (simp add: cycle_credit_sum[OF dis] eq)
  also have "\<dots> = 1" using mem by (simp add: sum.delta)
  finally show ?thesis using True by simp
qed

lemma owner_credit_start: "\<not> siklus_berjalan_punya_ritase s0 \<Longrightarrow> owner_credit s0 s0"
  by (simp add: owner_credit_def)

text \<open>
  Claim C1. When the running cycle has a ritase and a \<^verbatim>\<open>truck_full\<close> detection arrives with
  a confidence strictly above that of the best detection of the cycle, the call returns
  \<^verbatim>\<open>False\<close>, leaves \<^verbatim>\<open>total_ritase\<close> and the flag alone, makes the detection the best of
  the cycle, takes 1 from the previous owner's count (not below 0) and then adds 1 to the new
  owner's count (the same entry when the owner does not change).

  Over a whole global cycle, that is a run of detections without \<^verbatim>\<open>bucket_dumping\<close> started
  in a state without ritase whose counts are not negative and whose \<^verbatim>\<open>data_truk\<close> has
  distinct keys (as every Python dictionary has): the counts gained since the start of the
  cycle sum to 1 once the cycle has a ritase and to 0 before; the single gained ritase sits
  on the owner of the current best detection and every other count is the one of the start;
  \<^verbatim>\<open>total_ritase\<close> has grown by the same 1 or 0, and that many calls returned \<^verbatim>\<open>True\<close>.
\<close>

theorem ritase_single_credit_per_cycle:
  "(siklus_berjalan_punya_ritase s \<and> ritase_terbaik_di_siklus s = Some lama
      \<and> rt_confidence lama < confidence \<longrightarrow>
      \<not> fst (ritase_proses_deteksi s tracker_id CLASS_TRUCK_FULL frame_index confidence)
      \<and> total_ritase (snd (ritase_proses_deteksi s tracker_id CLASS_TRUCK_FULL frame_index confidence)) =
          total_ritase s
      \<and> siklus_berjalan_punya_ritase
          (snd (ritase_proses_deteksi s tracker_id CLASS_TRUCK_FULL frame_index confidence))
      \<and> ritase_terbaik_di_siklus
          (snd (ritase_proses_deteksi s tracker_id CLASS_TRUCK_FULL frame_index confidence)) =
          Some \<lparr>rt_tracker_id = tracker_id, rt_frame_index = frame_index,
                rt_confidence = confidence, rt_cycle_number = nomor_siklus s\<rparr>
      \<and> dapatkan_ritase_count
          (snd (ritase_proses_deteksi s tracker_id CLASS_TRUCK_FULL frame_index confidence)) (Some k) =
          (if k = tracker_id
           then (if rt_tracker_id lama = tracker_id
                 then max 0 (dapatkan_ritase_count s (Some tracker_id) - 1)
                 else dapatkan_ritase_count s (Some tracker_id)) + 1
           else if k = rt_tracker_id lama then max 0 (dapatkan_ritase_count s (Some k) - 1)
           else dapatkan_ritase_count s (Some k)))
   \<and> (\<not> siklus_berjalan_punya_ritase s0
      \<and> list_all (\<lambda>p. 0 \<le> ritase_count (snd p)) (data_truk s0)
      \<and> distinct (map fst (data_truk s0))
      \<and> list_all (\<lambda>d. fst (snd d) \<noteq> CLASS_BUCKET_DUMPING) ds \<longrightarrow>
      cycle_credit s0 (snd (feed_ritase s0 ds)) =
        (if siklus_berjalan_punya_ritase (snd (feed_ritase s0 ds)) then 1 else 0)
      \<and> total_ritase (snd (feed_ritase s0 ds)) =
          total_ritase s0 + (if siklus_berjalan_punya_ritase (snd (feed_ritase s0 ds)) then 1 else 0)
      \<and> int (count_list (fst (feed_ritase s0 ds)) True) =
          (if siklus_berjalan_punya_ritase (snd (feed_ritase s0 ds)) then 1 else 0)
      \<and> (if siklus_berjalan_punya_ritase (snd (feed_ritase s0 ds))
         then \<exists>b. ritase_terbaik_di_siklus (snd (feed_ritase s0 ds)) = Some b
                \<and> (\<forall>j. dapatkan_ritase_count (snd (feed_ritase s0 ds)) (Some j) =
                       dapatkan_ritase_count s0 (Some j) + (if j = rt_tracker_id b then 1 else 0))
         else \<forall>j. dapatkan_ritase_count (snd (feed_ritase s0 ds)) (Some j) =
                  dapatkan_ritase_count s0 (Some j)))"
proof -
  let ?r = "ritase_proses_deteksi s tracker_id CLASS_TRUCK_FULL frame_index confidence"
  have a: "\<not> fst ?r \<and> total_ritase (snd ?r) = total_ritase s \<and> siklus_berjalan_punya_ritase (snd ?r)
      \<and> ritase_terbaik_di_siklus (snd ?r) =
          Some \<lparr>rt_tracker_id = tracker_id, rt_frame_index = frame_index,
                rt_confidence = confidence, rt_cycle_number = nomor_siklus s\<rparr>
      \<and> dapatkan_ritase_count (snd ?r) (Some k) =
          (if k = tracker_id
           then (if rt_tracker_id lama = tracker_id
                 then max 0 (dapatkan_ritase_count s (Some tracker_id) - 1)
                 else dapatkan_ritase_count s (Some tracker_id)) + 1
           else if k = rt_tracker_id lama then max 0 (dapatkan_ritase_count s (Some k) - 1)
           else dapatkan_ritase_count s (Some k))"
    if h: "siklus_berjalan_punya_ritase s" "ritase_terbaik_di_siklus s = Some lama"
      "rt_confidence lama < confidence"
  proof -
    have nf: "\<not> fst ?r" using h(1) by (simp add: step_fst)
    have ne: "CLASS_TRUCK_FULL \<noteq> CLASS_BUCKET_DUMPING"
      by (simp add: CLASS_TRUCK_FULL_def CLASS_BUCKET_DUMPING_def)
    show ?thesis
      using nf h step_count_swap[OF h, of tracker_id frame_index k]
      by (simp add: step_total step_has[OF ne] step_terbaik[OF ne])
  qed
  have b: "cycle_credit s0 (snd (feed_ritase s0 ds)) =
        (if siklus_berjalan_punya_ritase (snd (feed_ritase s0 ds)) then 1 else 0)
      \<and> total_ritase (snd (feed_ritase s0 ds)) =
          total_ritase s0 + (if siklus_berjalan_punya_ritase (snd (feed_ritase s0 ds)) then 1 else 0)
      \<and> int (count_list (fst (feed_ritase s0 ds)) True) =
          (if siklus_berjalan_punya_ritase (snd (feed_ritase s0 ds)) then 1 else 0)
      \<and> (if siklus_berjalan_punya_ritase (snd (feed_ritase s0 ds))
         then \<exists>b. ritase_terbaik_di_siklus (snd (feed_ritase s0 ds)) = Some b
                \<and> (\<forall>j. dapatkan_ritase_count (snd (feed_ritase s0 ds)) (Some j) =
                       dapatkan_ritase_count s0 (Some j) + (if j = rt_tracker_id b then 1 else 0))
         else \<forall>j. dapatkan_ritase_count (snd (feed_ritase s0 ds)) (Some j) =
                  dapatkan_ritase_count s0 (Some j))"
    if h: "\<not> siklus_berjalan_punya_ritase s0"
      "list_all (\<lambda>p. 0 \<le> ritase_count (snd p)) (data_truk s0)"
      "distinct (map fst (data_truk s0))"
      "list_all (\<lambda>d. fst (snd d) \<noteq> CLASS_BUCKET_DUMPING) ds"
  proof -
    let ?s = "snd (feed_ritase s0 ds)"
    have nn: "0 \<le> dapatkan_ritase_count s0 (Some j)" for j
      using h(2) by (rule nonneg_counts)
    have oc: "owner_credit s0 ?s"
      using owner_credit_feed[OF nn owner_credit_start[OF h(1)] h(4)] .
    have cc: "cycle_credit s0 ?s = (if siklus_berjalan_punya_ritase ?s then 1 else 0)"
      using owner_credit_sum[OF nn oc distinct_feed[OF h(3)]] .
    have tt: "total_ritase ?s = total_ritase s0 + (if siklus_berjalan_punya_ritase ?s then 1 else 0)"
      using oc by (simp add: owner_credit_def split: if_splits)
    have ct: "int (count_list (fst (feed_ritase s0 ds)) True) =
          (if siklus_berjalan_punya_ritase ?s then 1 else 0)"
      using tt feed_true_count[OF h(4), of s0] by simp
    have pw: "if siklus_berjalan_punya_ritase ?s
         then \<exists>b. ritase_terbaik_di_siklus ?s = Some b
                \<and> (\<forall>j. dapatkan_ritase_count ?s (Some j) =
                       dapatkan_ritase_count s0 (Some j) + (if j = rt_tracker_id b then 1 else 0))
         else \<forall>j. dapatkan_ritase_count ?s (Some j) = dapatkan_ritase_count s0 (Some j)"
      using oc unfolding owner_credit_def by (simp split: if_splits)
    from cc tt ct pw show ?thesis by (simp only: simp_thms)
  qed
  from a b show ?thesis by blast
qed

lemma contoh_tukar_awal:
  "siklus_berjalan_punya_ritase (snd (ritase_proses_deteksi (PenghitungRitase_init 0.9) 1 CLASS_TRUCK_FULL 10 0.95))
   \<and> ritase_terbaik_di_siklus (snd (ritase_proses_deteksi (PenghitungRitase_init 0.9) 1 CLASS_TRUCK_FULL 10 0.95)) =
       Some \<lparr>rt_tracker_id = 1, rt_frame_index = 10, rt_confidence = 0.95, rt_cycle_number = 0\<rparr>
   \<and> dapatkan_ritase_count (snd (ritase_proses_deteksi (PenghitungRitase_init 0.9) 1 CLASS_TRUCK_FULL 10 0.95)) (Some 1) = 1
   \<and> dapatkan_ritase_count (snd (ritase_proses_deteksi (PenghitungRitase_init 0.9) 1 CLASS_TRUCK_FULL 10 0.95)) (Some 2) = 0
   \<and> total_ritase (snd (ritase_proses_deteksi (PenghitungRitase_init 0.9) 1 CLASS_TRUCK_FULL 10 0.95)) = 1"
  by (simp add: ritase_proses_deteksi_def ritase_pertama_def
      inisialisasi_truck_def PenghitungRitase_init_def CLASS_TRUCK_FULL_def CLASS_BUCKET_DUMPING_def
      has_key_def detection_id_def str_int_def digits_of.simps defaultdict_append_def Let_def
      dapatkan_ritase_count_def)

lemma contoh_siklus_tiga_truk:
  "siklus_berjalan_punya_ritase (snd (feed_ritase (PenghitungRitase_init 0.9)
      [(1, CLASS_TRUCK_FULL, 10, 0.95), (2, CLASS_TRUCK_FULL, 11, 0.96), (3, CLASS_TRUCK_FULL, 12, 0.5)]))"
  by (simp add: ritase_proses_deteksi_def ritase_pertama_def perbarui_kandidat_def
      inisialisasi_truck_def PenghitungRitase_init_def CLASS_TRUCK_FULL_def CLASS_BUCKET_DUMPING_def
      has_key_def detection_id_def str_int_def digits_of.simps defaultdict_append_def Let_def)

theorem ritase_single_credit_per_cycle_witness:
  "dapatkan_ritase_count
     (snd (ritase_proses_deteksi
        (snd (ritase_proses_deteksi (PenghitungRitase_init 0.9) 1 CLASS_TRUCK_FULL 10 0.95))
        2 CLASS_TRUCK_FULL 11 0.96)) (Some 1) = 0
   \<and> dapatkan_ritase_count
     (snd (ritase_proses_deteksi
        (snd (ritase_proses_deteksi (PenghitungRitase_init 0.9) 1 CLASS_TRUCK_FULL 10 0.95))
        2 CLASS_TRUCK_FULL 11 0.96)) (Some 2) = 1
   \<and> total_ritase
     (snd (ritase_proses_deteksi
        (snd (ritase_proses_deteksi (PenghitungRitase_init 0.9) 1 CLASS_TRUCK_FULL 10 0.95))
        2 CLASS_TRUCK_FULL 11 0.96)) = 1
   \<and> cycle_credit (PenghitungRitase_init 0.9)
       (snd (feed_ritase (PenghitungRitase_init 0.9)
          [(1, CLASS_TRUCK_FULL, 10, 0.95), (2, CLASS_TRUCK_FULL, 11, 0.96),
           (3, CLASS_TRUCK_FULL, 12, 0.5)])) = 1
   \<and> total_ritase
       (snd (feed_ritase (PenghitungRitase_init 0.9)
          [(1, CLASS_TRUCK_FULL, 10, 0.95), (2, CLASS_TRUCK_FULL, 11, 0.96),
           (3, CLASS_TRUCK_FULL, 12, 0.5)])) = 1"
proof -
  let ?s0 = "PenghitungRitase_init 0.9"
  let ?s1 = "snd (ritase_proses_deteksi ?s0 1 CLASS_TRUCK_FULL 10 0.95)"
  let ?ds = "[(1, CLASS_TRUCK_FULL, 10, 0.95), (2, CLASS_TRUCK_FULL, 11, 0.96),
           (3, CLASS_TRUCK_FULL, 12, 0.5)] :: (int \<times> int \<times> int \<times> real) list"
  have h0: "\<not> siklus_berjalan_punya_ritase ?s0"
    "list_all (\<lambda>p. 0 \<le> ritase_count (snd p)) (data_truk ?s0)"
    "distinct (map fst (data_truk ?s0))"
    "list_all (\<lambda>d. fst (snd d) \<noteq> CLASS_BUCKET_DUMPING) ?ds"
    "total_ritase ?s0 = 0"
    by (simp_all add: PenghitungRitase_init_def CLASS_TRUCK_FULL_def CLASS_BUCKET_DUMPING_def)
  have lt: "rt_confidence \<lparr>rt_tracker_id = 1, rt_frame_index = 10, rt_confidence = 0.95,
               rt_cycle_number = 0\<rparr> < (0.96 :: real)"
    by simp
  show ?thesis
    using contoh_tukar_awal contoh_siklus_tiga_truk h0 lt
      ritase_single_credit_per_cycle[where s="?s1" and tracker_id=2 and frame_index=11
        and confidence="0.96" and k=1 and s0="?s0" and ds="?ds"
        and lama="\<lparr>rt_tracker_id = 1, rt_frame_index = 10, rt_confidence = 0.95, rt_cycle_number = 0\<rparr>"]
      ritase_single_credit_per_cycle[where s="?s1" and tracker_id=2 and frame_index=11
        and confidence="0.96" and k=2 and s0="?s0" and ds="[]"
        and lama="\<lparr>rt_tracker_id = 1, rt_frame_index = 10, rt_confidence = 0.95, rt_cycle_number = 0\<rparr>"]
    by simp
qed

section \<open>Both counters: identities already counted\<close>

lemma passing_fst_any_class:
  "fst (passing_proses_deteksi p t cl f c) =
     (cl = CLASS_BUCKET_DUMPING \<and> qualifies p t (f, c) \<and> kandidat_terbaik p t = None)"
proof (cases "cl = CLASS_BUCKET_DUMPING")
  case True
  then show ?thesis by (simp add: passing_fst)
next
  case False
  then show ?thesis by (simp add: passing_rejected)
qed

lemma ritase_count_unchanged:
  assumes "\<not> fst (ritase_proses_deteksi s t cl f c)"
    "cl \<noteq> CLASS_TRUCK_FULL \<or> \<not> siklus_berjalan_punya_ritase s"
  shows "dapatkan_ritase_count (snd (ritase_proses_deteksi s t cl f c)) k = dapatkan_ritase_count s k"
proof (cases k)
  case None
  then show ?thesis using assms(1) step_total[of s t cl f c] by (simp add: dapatkan_ritase_count_def)
next
  case (Some j)
  then show ?thesis using assms step_count_no_credit[of s cl t f c j] by auto
qed

text \<open>
  Claim C3, as amended. Processing a detection whose identity is already in the set of
  counted identities:
  \<^item> in \<^verbatim>\<open>PenghitungPassing\<close> returns \<^verbatim>\<open>False\<close> and changes neither the total nor any
    excavator's count;
  \<^item> in \<^verbatim>\<open>PenghitungRitase\<close> returns \<^verbatim>\<open>False\<close> and never changes \<^verbatim>\<open>total_ritase\<close>;
    it changes no truck's count either unless the detection is a \<^verbatim>\<open>truck_full\<close> arriving
    while the cycle already has a ritase (the candidate branch does not consult the set).
  In both counters the total grows by 1 exactly when the call returns \<^verbatim>\<open>True\<close>, and a
  call that returns \<^verbatim>\<open>True\<close> had an identity outside the set and has put it into the set:
  no identity is counted twice towards a total.
\<close>

theorem seen_identity_not_recounted:
  "(detection_id t f \<in> counted_dumps p \<longrightarrow>
      \<not> fst (passing_proses_deteksi p t cl f c)
      \<and> total_passing (snd (passing_proses_deteksi p t cl f c)) = total_passing p
      \<and> dapatkan_passing_count (snd (passing_proses_deteksi p t cl f c)) k =
          dapatkan_passing_count p k)
   \<and> (detection_id t f \<in> truk_full_terhitung s \<longrightarrow>
      \<not> fst (ritase_proses_deteksi s t cl f c)
      \<and> total_ritase (snd (ritase_proses_deteksi s t cl f c)) = total_ritase s
      \<and> (cl \<noteq> CLASS_TRUCK_FULL \<or> \<not> siklus_berjalan_punya_ritase s \<longrightarrow>
           dapatkan_ritase_count (snd (ritase_proses_deteksi s t cl f c)) j =
             dapatkan_ritase_count s j))
   \<and> total_passing (snd (passing_proses_deteksi p t cl f c)) =
       total_passing p + (if fst (passing_proses_deteksi p t cl f c) then 1 else 0)
   \<and> (fst (passing_proses_deteksi p t cl f c) \<longrightarrow>
        detection_id t f \<notin> counted_dumps p
        \<and> detection_id t f \<in> counted_dumps (snd (passing_proses_deteksi p t cl f c)))
   \<and> total_ritase (snd (ritase_proses_deteksi s t cl f c)) =
       total_ritase s + (if fst (ritase_proses_deteksi s t cl f c) then 1 else 0)
   \<and> (fst (ritase_proses_deteksi s t cl f c) \<longrightarrow>
        detection_id t f \<notin> truk_full_terhitung s
        \<and> detection_id t f \<in> truk_full_terhitung (snd (ritase_proses_deteksi s t cl f c)))"
proof -
  have a: "\<not> fst (passing_proses_deteksi p t cl f c)
      \<and> total_passing (snd (passing_proses_deteksi p t cl f c)) = total_passing p
      \<and> dapatkan_passing_count (snd (passing_proses_deteksi p t cl f c)) k =
          dapatkan_passing_count p k"
    if "detection_id t f \<in> counted_dumps p"
    using that by (simp add: passing_rejected)
  have b1: "\<not> fst (ritase_proses_deteksi s t cl f c)
      \<and> total_ritase (snd (ritase_proses_deteksi s t cl f c)) = total_ritase s"
    if "detection_id t f \<in> truk_full_terhitung s"
    using that by (simp add: step_total) (simp add: step_fst)
  have b2: "dapatkan_ritase_count (snd (ritase_proses_deteksi s t cl f c)) j =
             dapatkan_ritase_count s j"
    if "detection_id t f \<in> truk_full_terhitung s"
      "cl \<noteq> CLASS_TRUCK_FULL \<or> \<not> siklus_berjalan_punya_ritase s"
    using ritase_count_unchanged[of s t cl f c j] b1[OF that(1)] that(2) by blast
  have c: "detection_id t f \<notin> counted_dumps p
        \<and> detection_id t f \<in> counted_dumps (snd (passing_proses_deteksi p t cl f c))"
    if "fst (passing_proses_deteksi p t cl f c)"
  proof -
    from that have q: "cl = CLASS_BUCKET_DUMPING" "qualifies p t (f, c)"
      by (simp_all add: passing_fst_any_class)
    then show ?thesis by (simp add: passing_counted_step) (simp add: qualifies_def)
  qed
  have d: "detection_id t f \<notin> truk_full_terhitung s
        \<and> detection_id t f \<in> truk_full_terhitung (snd (ritase_proses_deteksi s t cl f c))"
    if "fst (ritase_proses_deteksi s t cl f c)"
    using that by (simp add: step_seen) (simp add: step_fst)
  from a b1 b2 c d passing_total[of p t cl f c] step_total[of s t cl f c]
  show ?thesis by blast
qed

text \<open>
  The claim as stated (no count ever changes for an identity already in the set) fails for
  the per-truck counts of \<^verbatim>\<open>PenghitungRitase\<close>. Truck 1 is credited at frame 10 with
  confidence 0.95; a bucket closes the cycle; truck 2 is credited in the next cycle with
  confidence 0.91. Processing truck 1's detection of frame 10 again, whose identity is in the
  set, swaps it in as best candidate: truck 2's count changes (from 1 to 0) and truck 1's
  count becomes 2.
\<close>

theorem seen_identity_moves_ritase_count:
  "detection_id 1 10 \<in> truk_full_terhitung (snd (feed_ritase (PenghitungRitase_init 0.9)
       [(1, CLASS_TRUCK_FULL, 10, 0.95), (200, CLASS_BUCKET_DUMPING, 11, 0.9),
        (2, CLASS_TRUCK_FULL, 20, 0.91)]))
   \<and> dapatkan_ritase_count
       (snd (ritase_proses_deteksi
          (snd (feed_ritase (PenghitungRitase_init 0.9)
             [(1, CLASS_TRUCK_FULL, 10, 0.95), (200, CLASS_BUCKET_DUMPING, 11, 0.9),
              (2, CLASS_TRUCK_FULL, 20, 0.91)]))
          1 CLASS_TRUCK_FULL 10 0.95)) (Some 2)
     \<noteq> dapatkan_ritase_count
         (snd (feed_ritase (PenghitungRitase_init 0.9)
            [(1, CLASS_TRUCK_FULL, 10, 0.95), (200, CLASS_BUCKET_DUMPING, 11, 0.9),
             (2, CLASS_TRUCK_FULL, 20, 0.91)])) (Some 2)
   \<and> dapatkan_ritase_count
       (snd (ritase_proses_deteksi
          (snd (feed_ritase (PenghitungRitase_init 0.9)
             [(1, CLASS_TRUCK_FULL, 10, 0.95), (200, CLASS_BUCKET_DUMPING, 11, 0.9),
              (2, CLASS_TRUCK_FULL, 20, 0.91)]))
          1 CLASS_TRUCK_FULL 10 0.95)) (Some 1) = 2"
  by (simp add: ritase_proses_deteksi_def ritase_pertama_def perbarui_kandidat_def
      selesaikan_siklus_global_def truk_dengan_siklus_aktif_def ritase_selesaikan_siklus_def
      inisialisasi_truck_def PenghitungRitase_init_def CLASS_TRUCK_FULL_def CLASS_BUCKET_DUMPING_def
      has_key_def detection_id_def str_int_def digits_of.simps defaultdict_append_def Let_def
      dapatkan_ritase_count_def)

lemma contoh_setelah_tutup:
  "detection_id 1 10 \<in> truk_full_terhitung (snd (feed_ritase (PenghitungRitase_init 0.9)
       [(1, CLASS_TRUCK_FULL, 10, 0.95), (200, CLASS_BUCKET_DUMPING, 11, 0.9)]))
   \<and> \<not> siklus_berjalan_punya_ritase (snd (feed_ritase (PenghitungRitase_init 0.9)
       [(1, CLASS_TRUCK_FULL, 10, 0.95), (200, CLASS_BUCKET_DUMPING, 11, 0.9)]))
   \<and> total_ritase (snd (feed_ritase (PenghitungRitase_init 0.9)
       [(1, CLASS_TRUCK_FULL, 10, 0.95), (200, CLASS_BUCKET_DUMPING, 11, 0.9)])) = 1"
  by (simp add: ritase_proses_deteksi_def ritase_pertama_def perbarui_kandidat_def
      selesaikan_siklus_global_def truk_dengan_siklus_aktif_def ritase_selesaikan_siklus_def
      inisialisasi_truck_def PenghitungRitase_init_def CLASS_TRUCK_FULL_def CLASS_BUCKET_DUMPING_def
      has_key_def detection_id_def str_int_def digits_of.simps defaultdict_append_def Let_def)

theorem seen_identity_not_recounted_witness:
  "detection_id 1 10 \<in> counted_dumps (snd (passing_proses_deteksi (PenghitungPassing_init 0.8) 1 CLASS_BUCKET_DUMPING 10 0.81))
   \<and> \<not> fst (passing_proses_deteksi
        (snd (passing_proses_deteksi (PenghitungPassing_init 0.8) 1 CLASS_BUCKET_DUMPING 10 0.81))
        1 CLASS_BUCKET_DUMPING 10 0.99)
   \<and> total_passing (snd (passing_proses_deteksi
        (snd (passing_proses_deteksi (PenghitungPassing_init 0.8) 1 CLASS_BUCKET_DUMPING 10 0.81))
        1 CLASS_BUCKET_DUMPING 10 0.99)) = 1
   \<and> detection_id 1 10 \<in> truk_full_terhitung (snd (feed_ritase (PenghitungRitase_init 0.9)
       [(1, CLASS_TRUCK_FULL, 10, 0.95), (200, CLASS_BUCKET_DUMPING, 11, 0.9)]))
   \<and> \<not> fst (ritase_proses_deteksi
        (snd (feed_ritase (PenghitungRitase_init 0.9)
           [(1, CLASS_TRUCK_FULL, 10, 0.95), (200, CLASS_BUCKET_DUMPING, 11, 0.9)]))
        1 CLASS_TRUCK_FULL 10 0.95)
   \<and> dapatkan_ritase_count (snd (ritase_proses_deteksi
        (snd (feed_ritase (PenghitungRitase_init 0.9)
           [(1, CLASS_TRUCK_FULL, 10, 0.95), (200, CLASS_BUCKET_DUMPING, 11, 0.9)]))
        1 CLASS_TRUCK_FULL 10 0.95)) None = 1
   \<and> fst (passing_proses_deteksi (PenghitungPassing_init 0.8) 1 CLASS_BUCKET_DUMPING 10 0.81)
   \<and> detection_id 1 10 \<notin> counted_dumps (PenghitungPassing_init 0.8)
   \<and> fst (ritase_proses_deteksi (PenghitungRitase_init 0.9) 1 CLASS_TRUCK_FULL 10 0.95)
   \<and> detection_id 1 10 \<in> truk_full_terhitung
        (snd (ritase_proses_deteksi (PenghitungRitase_init 0.9) 1 CLASS_TRUCK_FULL 10 0.95))"
proof -
  let ?p1 = "snd (passing_proses_deteksi (PenghitungPassing_init 0.8) 1 CLASS_BUCKET_DUMPING 10 0.81)"
  let ?s2 = "snd (feed_ritase (PenghitungRitase_init 0.9)
           [(1, CLASS_TRUCK_FULL, 10, 0.95), (200, CLASS_BUCKET_DUMPING, 11, 0.9)])"
  have p1: "detection_id 1 10 \<in> counted_dumps ?p1" "total_passing ?p1 = 1"
    "fst (passing_proses_deteksi (PenghitungPassing_init 0.8) 1 CLASS_BUCKET_DUMPING 10 0.81)"
    by (subst contoh_satu_dump, simp add: detection_id_def str_int_def digits_of.simps)+
  have r1: "fst (ritase_proses_deteksi (PenghitungRitase_init 0.9) 1 CLASS_TRUCK_FULL 10 0.95)"
    by (simp add: step_fst PenghitungRitase_init_def)
  have s2n: "dapatkan_ritase_count ?s2 None = 1"
    using contoh_setelah_tutup by (simp add: dapatkan_ritase_count_def)
  show ?thesis
    using p1 r1 s2n contoh_setelah_tutup
      seen_identity_not_recounted[where p="?p1" and t=1 and f=10 and cl=CLASS_BUCKET_DUMPING
        and c="0.99" and k=None and s="?s2" and j=None]
      seen_identity_not_recounted[where p="PenghitungPassing_init 0.8" and t=1 and f=10
        and cl=CLASS_BUCKET_DUMPING and c="0.81" and k=None
        and s="PenghitungRitase_init 0.9" and j=None]
      seen_identity_not_recounted[where p="?p1" and t=1 and f=10 and cl=CLASS_TRUCK_FULL
        and c="0.95" and k=None and s="?s2" and j=None]
      seen_identity_not_recounted[where p="PenghitungPassing_init 0.8" and t=1 and f=10
        and cl=CLASS_TRUCK_FULL and c="0.95" and k=None
        and s="PenghitungRitase_init 0.9" and j=None]
    by simp
qed

end
